theory Spec2Isabelle
  imports Complex_Main "HOL-Library.Sublist" "HOL-Library.Product_Lexorder"
begin

section \<open>CellConstructor: the Phonons class\<close>

text \<open>
  A shallow embedding of \<^verbatim>\<open>cellconstructor/Phonons.py\<close> (Python 2, numpy).

  Conventions of the embedding.
  \<^item> A Python exception is a value of \<open>pyerror\<close>; a method that can raise returns
    \<open>pyerror + 'a\<close> with \<open>Inl\<close> the exception. Every \<^verbatim>\<open>raise\<close> of the source carries
    the message of the source, so that two \<^verbatim>\<open>ValueError\<close>s raised at different places
    are different values. The state of an object at the moment an exception leaves a
    method, and the files written before it, are not part of the result.
  \<^item> A method that assigns to \<^verbatim>\<open>self\<close> takes the object and returns the updated one.
  \<^item> numpy floating-point numbers are the real and complex numbers: rounding, overflow,
    \<^verbatim>\<open>inf\<close> and \<^verbatim>\<open>nan\<close> are not represented. A numpy array is a list (a vector), a list
    of rows (a matrix) or a list of matrices.
  \<^item> Routines of numpy, scipy and of the modules \<^verbatim>\<open>Structure\<close> and \<^verbatim>\<open>Methods\<close>, whose code
    is not part of \<^verbatim>\<open>Phonons.py\<close>, are fields of the record \<open>externals\<close> that every
    method using them takes as its first argument.
\<close>

subsection \<open>Exceptions\<close>

datatype pyerror =
    ValueError string
  | TypeError string
  | IndexError
  | KeyError string
  | AttributeError string

definition ebind :: "pyerror + 'a \<Rightarrow> ('a \<Rightarrow> pyerror + 'b) \<Rightarrow> pyerror + 'b" where
  "ebind m f = (case m of Inl e \<Rightarrow> Inl e | Inr x \<Rightarrow> f x)"

subsection \<open>Data model\<close>

type_synonym rvec = "real list"
type_synonym rmat = "real list list"
type_synonym cvec = "complex list"
type_synonym cmat = "complex list list"

text \<open>
  Modelled from the spec: the class \<^verbatim>\<open>Structure.Structure\<close> is not part of the sources at
  hand; the record has the attributes that \<^verbatim>\<open>Phonons.py\<close> reads and writes (atom count,
  species labels, coordinates, per-species mass table, unit cell).
\<close>

record Structure =
  N_atoms :: int
  atoms :: "string list"
  coords :: rmat
  masses :: "string \<rightharpoonup> real"
  unit_cell :: rmat
  has_unit_cell :: bool

text \<open>The attributes assigned in \<^verbatim>\<open>Phonons.__init__\<close>; \<open>None\<close> is Python's \<^verbatim>\<open>None\<close>.\<close>

record phonons =
  dynmats :: "cmat list"
  nqirr :: int
  q_tot :: "rvec list"
  dielectric_tensor :: "rmat option"
  effective_charges :: "rmat list option"
  raman_tensor :: "rmat list option"
  alat :: real
  initialized :: bool
  q_stars :: "rvec list list"
  "structure" :: "Structure option"

text \<open>Library routines used by the class, taken as parameters.\<close>

record externals =
  py_float :: "string \<Rightarrow> real option"
  py_int :: "string \<Rightarrow> int option"
  np_linalg_eig :: "cmat \<Rightarrow> cvec \<times> cmat"
  np_linalg_eigvals :: "rmat \<Rightarrow> rvec"
  scipy_optimize_anderson :: "(cvec \<Rightarrow> cvec) \<Rightarrow> cvec \<Rightarrow> cvec"
  get_unit_cell_from_ibrav :: "int \<Rightarrow> rvec \<Rightarrow> rmat"
  covariant_coordinates :: "rmat \<Rightarrow> cvec \<Rightarrow> cvec"
  change_unit_cell :: "Structure \<Rightarrow> rmat \<Rightarrow> Structure"

subsection \<open>Python and numpy primitives\<close>

definition py_nth :: "'a list \<Rightarrow> int \<Rightarrow> pyerror + 'a" where
  \<comment> \<open>\<^verbatim>\<open>xs[i]\<close> on a Python list; \<^verbatim>\<open>xs[-1]\<close> is the last element\<close>
  "py_nth xs i =
     (if 0 \<le> i \<and> i < int (length xs) then Inr (xs ! nat i)
      else if - int (length xs) \<le> i \<and> i < 0 then Inr (xs ! nat (int (length xs) + i))
      else Inl IndexError)"

definition np_index :: "nat \<Rightarrow> int \<Rightarrow> pyerror + nat" where
  \<comment> \<open>the position an integer index denotes along an array axis of length \<open>n\<close>\<close>
  "np_index n i =
     (if 0 \<le> i \<and> i < int n then Inr (nat i)
      else if - int n \<le> i \<and> i < 0 then Inr (nat (int n + i))
      else Inl IndexError)"

definition is_shape :: "nat \<Rightarrow> nat \<Rightarrow> 'a list list \<Rightarrow> bool" where
  "is_shape r c m = (length m = r \<and> list_all (\<lambda>row. length row = c) m)"

definition np_zeros2 :: "nat \<Rightarrow> nat \<Rightarrow> 'a::zero list list" where
  "np_zeros2 r c = replicate r (replicate c 0)"

definition argsort :: "real list \<Rightarrow> nat list" where
  \<comment> \<open>\<^verbatim>\<open>np.argsort\<close>: the indices in the order of their keys (equal keys in index order)\<close>
  "argsort xs = sort_key (\<lambda>i. xs ! i) [0..<length xs]"

definition take_cols :: "nat list \<Rightarrow> 'a list list \<Rightarrow> 'a list list" where
  \<comment> \<open>\<^verbatim>\<open>m[:, mask]\<close>\<close>
  "take_cols idx m = map (\<lambda>row. map (\<lambda>i. row ! i) idx) m"

definition einsum_i_ji_ki :: "'a::comm_ring_1 list \<Rightarrow> 'a list list \<Rightarrow> 'a list list \<Rightarrow> 'a list list" where
  \<comment> \<open>\<^verbatim>\<open>np.einsum("i, ji, ki", f, a, b)\<close>: entry \<open>(j, k)\<close> is \<open>\<Sum>i. f i * a j i * b k i\<close>\<close>
  "einsum_i_ji_ki f a b =
     map (\<lambda>ra. map (\<lambda>rb. sum_list (map (\<lambda>i. f ! i * ra ! i * rb ! i) [0..<length f])) b) a"

definition einsum_i_ij_j :: "rvec \<Rightarrow> rmat \<Rightarrow> rvec \<Rightarrow> real" where
  \<comment> \<open>\<^verbatim>\<open>np.einsum("i, ij, j", u, m, v)\<close>\<close>
  "einsum_i_ij_j u m v =
     sum_list (map (\<lambda>i. sum_list (map (\<lambda>j. u ! i * m ! i ! j * v ! j) [0..<length v]))
                   [0..<length u])"

subsection \<open>Masses of the cartesian degrees of freedom\<close>

definition lookup_mass :: "Structure \<Rightarrow> string \<Rightarrow> pyerror + real" where
  \<comment> \<open>\<^verbatim>\<open>self.structure.masses[label]\<close>\<close>
  "lookup_mass s a = (case masses s a of None \<Rightarrow> Inl (KeyError a) | Some m \<Rightarrow> Inr m)"

fun atom_masses :: "Structure \<Rightarrow> nat \<Rightarrow> pyerror + real list" where
  \<comment> \<open>the loop \<^verbatim>\<open>for i in range(N_atoms): ... masses[atoms[i]]\<close>, one entry per atom\<close>
  "atom_masses s 0 = Inr []"
| "atom_masses s (Suc k) =
     ebind (atom_masses s k) (\<lambda>ms.
       ebind (py_nth (atoms s) (int k)) (\<lambda>a.
         ebind (lookup_mass s a) (\<lambda>m. Inr (ms @ [m]))))"

definition triple :: "'a list \<Rightarrow> 'a list" where
  \<comment> \<open>\<^verbatim>\<open>mass1[3*i : 3*i + 3] = x\<close> for every atom: each entry three times\<close>
  "triple xs = concat (map (\<lambda>x. [x, x, x]) xs)"

definition the_structure :: "phonons \<Rightarrow> string \<Rightarrow> pyerror + Structure" where
  \<comment> \<open>\<^verbatim>\<open>self.structure.attr\<close> when \<^verbatim>\<open>self.structure\<close> may be \<^verbatim>\<open>None\<close>\<close>
  "the_structure self attr =
     (case structure self of None \<Rightarrow> Inl (AttributeError attr) | Some s \<Rightarrow> Inr s)"

definition dim3N :: "Structure \<Rightarrow> pyerror + nat" where
  \<comment> \<open>the dimension \<^verbatim>\<open>3 * N_atoms\<close> of an array made by \<^verbatim>\<open>np.zeros\<close>\<close>
  "dim3N s = (if N_atoms s < 0 then Inl (ValueError ''negative dimensions are not allowed'')
              else Inr (nat (3 * N_atoms s)))"

subsection \<open>DyagDinQ\<close>

definition freq_of :: "real \<Rightarrow> real" where
  \<comment> \<open>\<^verbatim>\<open>frequencies[f2 > 0] = sqrt(f2); frequencies[f2 < 0] = -sqrt(-f2)\<close>, else the initial 0\<close>
  "freq_of f2 = (if f2 > 0 then sqrt f2 else if f2 < 0 then - sqrt (- f2) else 0)"

definition inv_sqrt_masses :: "Structure \<Rightarrow> nat \<Rightarrow> rmat" where
  \<comment> \<open>the array \<^verbatim>\<open>real_dyn\<close> before the multiplication: block \<open>(i, j)\<close> is
      \<^verbatim>\<open>1 / sqrt(m1 * m2)\<close> for the atoms listed in \<^verbatim>\<open>structure.atoms\<close>, zero elsewhere\<close>
  "inv_sqrt_masses s n =
     map (\<lambda>a. map (\<lambda>b.
            if a div 3 < length (atoms s) \<and> b div 3 < length (atoms s)
            then 1 / sqrt (the (masses s (atoms s ! (a div 3))) * the (masses s (atoms s ! (b div 3))))
            else 0) [0..<n]) [0..<n]"

definition mult_elem :: "rmat \<Rightarrow> cmat \<Rightarrow> cmat" where
  \<comment> \<open>\<^verbatim>\<open>real_dyn *= dyn\<close>, elementwise, for arrays of one shape\<close>
  "mult_elem w d = map2 (\<lambda>rw rd. map2 (\<lambda>x z. complex_of_real x * z) rw rd) w d"

definition DyagDinQ :: "externals \<Rightarrow> phonons \<Rightarrow> int \<Rightarrow> pyerror + (rvec \<times> cmat)" where
  "DyagDinQ ext self iq =
     ebind (the_structure self ''N_atoms'') (\<lambda>s.
     ebind (dim3N s) (\<lambda>n.
       case find (\<lambda>a. masses s a = None) (atoms s) of
         Some a \<Rightarrow> Inl (KeyError a)
       | None \<Rightarrow>
           ebind (py_nth (dynmats self) iq) (\<lambda>dyn.
             if \<not> is_shape n n dyn
             then Inl (ValueError ''operands could not be broadcast together'')
             else
               let real_dyn = mult_elem (inv_sqrt_masses s n) dyn;
                   (eigvals, pol_vects) = np_linalg_eig ext real_dyn;
                   f2 = map Re eigvals;
                   frequencies = map freq_of f2;
                   sorting_mask = argsort frequencies
               in if \<not> list_all (\<lambda>row. length frequencies \<le> length row) pol_vects
                  then Inl IndexError
                  else Inr (map (\<lambda>i. frequencies ! i) sorting_mask,
                            take_cols sorting_mask pol_vects))))"

subsection \<open>CheckCompatibility\<close>

text \<open>
  The argument \<^verbatim>\<open>other\<close> is any Python value. \<open>PhononsObj\<close> is an instance of the class;
  \<open>OtherTyped\<close> stands for every value whose \<^verbatim>\<open>type()\<close> differs from that of an instance
  of the class.
\<close>

datatype pyvalue = PhononsObj phonons | OtherTyped

definition CheckCompatibility :: "phonons \<Rightarrow> pyvalue \<Rightarrow> pyerror + bool" where
  "CheckCompatibility self other =
     (case other of
        OtherTyped \<Rightarrow> Inr False
      | PhononsObj other \<Rightarrow>
          ebind (the_structure self ''N_atoms'') (\<lambda>s.
          ebind (the_structure other ''N_atoms'') (\<lambda>t.
            if N_atoms s \<noteq> N_atoms t then Inr False
            else if nqirr self \<noteq> nqirr other then Inr False
            else Inr True)))"

subsection \<open>GetUpsilonMatrix\<close>

definition K_to_Ry :: real where
  "K_to_Ry = 6336857346553283 / 10 ^ 21"

definition bose :: "real \<Rightarrow> real \<Rightarrow> real" where
  \<comment> \<open>\<^verbatim>\<open>1 / (exp(w / (K_to_Ry * T)) - 1)\<close>\<close>
  "bose T w = 1 / (exp (w / (K_to_Ry * T)) - 1)"

definition times_masses :: "'a::times list \<Rightarrow> 'a list list \<Rightarrow> 'a list list" where
  \<comment> \<open>\<^verbatim>\<open>m * _m1_ * _m2_\<close> with \<^verbatim>\<open>_m1_ = np.tile(mass1, (3N, 1))\<close> and \<^verbatim>\<open>_m2_\<close> its transpose\<close>
  "times_masses mass1 m =
     map (\<lambda>r. map (\<lambda>c. m ! r ! c * mass1 ! c * mass1 ! r) [0..<length mass1]) [0..<length mass1]"

definition GetUpsilonMatrix :: "externals \<Rightarrow> phonons \<Rightarrow> real \<Rightarrow> pyerror + rmat" where
  "GetUpsilonMatrix ext self T =
     (if T < 0 then Inl (ValueError ''Error, T must be posititive (or zero)'')
      else if nqirr self \<noteq> 1
      then Inl (ValueError ''Error, this function yet not supports the supercells.'')
      else
        ebind (DyagDinQ ext self 0) (\<lambda>(w0, pols0).
        let pols1 = map (map Re) pols0;
            w = drop 3 w0;
            pols = map (drop 3) pols1;
            nw = (if T = 0 then map (\<lambda>_. 0) w else map (bose T) w);
            factor = map2 (\<lambda>x n. 2 * x / (1 + 2 * n)) w nw;
            Upsilon = einsum_i_ji_ki factor pols pols
        in ebind (the_structure self ''N_atoms'') (\<lambda>s.
           ebind (dim3N s) (\<lambda>n.
           ebind (atom_masses s (nat (N_atoms s))) (\<lambda>ms.
             let mass1 = triple (map sqrt ms)
             in if length Upsilon \<noteq> n
                then Inl (ValueError ''operands could not be broadcast together'')
                else Inr (times_masses mass1 Upsilon))))))"

subsection \<open>GetProbability\<close>

text \<open>The displacement argument: a one-dimensional array or a two-dimensional one.\<close>

datatype displacement = Flat rvec | Grid rmat

definition GetProbability ::
  "externals \<Rightarrow> phonons \<Rightarrow> displacement \<Rightarrow> real \<Rightarrow> rmat option \<Rightarrow> bool \<Rightarrow> pyerror + real" where
  "GetProbability ext self displacement T upsilon_matrix normalize_flag =
     ebind (the_structure self ''N_atoms'') (\<lambda>s.
     ebind (dim3N s) (\<lambda>n.
     ebind (case displacement of
              Grid g \<Rightarrow> if length (concat g) = n then Inr (concat g)
                        else Inl (ValueError ''cannot reshape array'')
            | Flat v \<Rightarrow> Inr v) (\<lambda>disp.
     ebind (case upsilon_matrix of
              None \<Rightarrow> GetUpsilonMatrix ext self T
            | Some u \<Rightarrow> Inr u) (\<lambda>ups.
       if \<not> is_shape (length disp) (length disp) ups
       then Inl (ValueError ''operands could not be broadcast together'')
       else
         let braket = einsum_i_ij_j disp ups disp;
             vals0 = np_linalg_eigvals ext ups;
             vals1 = map (\<lambda>i. vals0 ! i) (argsort (map abs vals0));
             vals = map (\<lambda>v. v / (2 * pi)) vals1;
             det = prod_list (drop 3 vals)
         in if normalize_flag then Inr (sqrt det * exp (- braket))
            else Inr (exp (- braket))))))"

subsection \<open>Copy\<close>

definition Phonons_default :: phonons where
  \<comment> \<open>the attributes after \<^verbatim>\<open>Phonons()\<close>, where neither branch on the argument's type runs\<close>
  "Phonons_default =
     \<lparr> dynmats = [], nqirr = 1, q_tot = [], dielectric_tensor = None,
       effective_charges = None, raman_tensor = None, alat = 1, initialized = False,
       q_stars = [], structure = None \<rparr>"


subsection \<open>GetStrainMatrix\<close>




subsection \<open>ForcePositiveDefinite\<close>

definition rebuild_matrix :: "rvec \<Rightarrow> rvec \<Rightarrow> cmat \<Rightarrow> cmat" where
  \<comment> \<open>\<^verbatim>\<open>np.einsum("i, ji, ki", w**2, pols, pols) * np.sqrt(_m1_ * _m2_)\<close>\<close>
  "rebuild_matrix mass1 w pols =
     (let m = einsum_i_ji_ki (map (\<lambda>x. complex_of_real (x\<^sup>2)) w) pols pols
      in map (\<lambda>r. map (\<lambda>c. m ! r ! c * complex_of_real (sqrt (mass1 ! c * mass1 ! r)))
                      [0..<length mass1]) [0..<length mass1])"

fun ForcePositiveDefinite_loop :: "externals \<Rightarrow> rvec \<Rightarrow> nat list \<Rightarrow> phonons \<Rightarrow> pyerror + phonons" where
  \<comment> \<open>the loop \<^verbatim>\<open>for iq in range(len(self.dynmats))\<close>\<close>
  "ForcePositiveDefinite_loop ext mass1 [] self = Inr self"
| "ForcePositiveDefinite_loop ext mass1 (iq # iqs) self =
     ebind (DyagDinQ ext self (int iq)) (\<lambda>(w, pols).
       if length pols \<noteq> length mass1
       then Inl (ValueError ''operands could not be broadcast together'')
       else ForcePositiveDefinite_loop ext mass1 iqs
              (self \<lparr> dynmats := (dynmats self)[iq := rebuild_matrix mass1 w pols] \<rparr>))"

definition ForcePositiveDefinite :: "externals \<Rightarrow> phonons \<Rightarrow> pyerror + phonons" where
  "ForcePositiveDefinite ext self =
     ebind (the_structure self ''N_atoms'') (\<lambda>s.
     ebind (dim3N s) (\<lambda>n.
     ebind (atom_masses s (nat (N_atoms s))) (\<lambda>ms.
       ForcePositiveDefinite_loop ext (triple ms) [0..<length (dynmats self)] self)))"

subsection \<open>GetRamanResponce\<close>



subsection \<open>Strings\<close>

definition is_space :: "char \<Rightarrow> bool" where
  \<comment> \<open>the characters \<^verbatim>\<open>str.split()\<close> and \<^verbatim>\<open>str.strip()\<close> treat as white space\<close>
  "is_space c = (c \<in> set [CHR '' '', CHR 0x09, CHR 0x0A, CHR 0x0B, CHR 0x0C, CHR 0x0D])"

definition py_strip :: "string \<Rightarrow> string" where
  "py_strip s = rev (dropWhile is_space (rev (dropWhile is_space s)))"

fun split_ws :: "string \<Rightarrow> string \<Rightarrow> string list" where
  \<comment> \<open>the word read so far, then the rest of the line\<close>
  "split_ws w [] = (if w = [] then [] else [w])"
| "split_ws w (c # cs) =
     (if is_space c then (if w = [] then split_ws [] cs else w # split_ws [] cs)
      else split_ws (w @ [c]) cs)"

definition py_split :: "string \<Rightarrow> string list" where
  \<comment> \<open>\<^verbatim>\<open>s.split()\<close>\<close>
  "py_split s = split_ws [] s"

fun split_sep :: "char \<Rightarrow> string \<Rightarrow> string \<Rightarrow> string list" where
  "split_sep sep w [] = [w]"
| "split_sep sep w (c # cs) =
     (if c = sep then w # split_sep sep [] cs else split_sep sep (w @ [c]) cs)"

definition py_split_on :: "char \<Rightarrow> string \<Rightarrow> string list" where
  \<comment> \<open>\<^verbatim>\<open>s.split(sep)\<close> for a separator of one character\<close>
  "py_split_on sep s = split_sep sep [] s"

fun py_in :: "string \<Rightarrow> string \<Rightarrow> bool" where
  \<comment> \<open>\<^verbatim>\<open>p in s\<close>: \<open>p\<close> occurs in \<open>s\<close>\<close>
  "py_in p [] = (p = [])"
| "py_in p (c # cs) = (prefix p (c # cs) \<or> py_in p cs)"

definition lower_char :: "char \<Rightarrow> char" where
  "lower_char c =
     (case map_of (zip ''ABCDEFGHIJKLMNOPQRSTUVWXYZ'' ''abcdefghijklmnopqrstuvwxyz'') c of
        None \<Rightarrow> c
      | Some l \<Rightarrow> l)"

definition py_lower :: "string \<Rightarrow> string" where
  "py_lower s = map lower_char s"

definition digit_char :: "nat \<Rightarrow> char" where
  \<comment> \<open>the decimal digit \<open>d < 10\<close>\<close>
  "digit_char d = ''0123456789'' ! d"

fun str_nat :: "nat \<Rightarrow> string" where
  "str_nat n = (if n < 10 then [digit_char n] else str_nat (n div 10) @ [digit_char (n mod 10)])"

declare str_nat.simps [simp del]

definition py_str_int :: "int \<Rightarrow> string" where
  \<comment> \<open>\<^verbatim>\<open>str(n)\<close> and \<^verbatim>\<open>"%i" % n\<close>\<close>
  "py_str_int n = (if n < 0 then CHR ''-'' # str_nat (nat (- n)) else str_nat (nat n))"

definition py_trunc :: "real \<Rightarrow> int" where
  \<comment> \<open>\<^verbatim>\<open>int(x)\<close> for a float: towards zero\<close>
  "py_trunc x = (if 0 \<le> x then \<lfloor>x\<rfloor> else \<lceil>x\<rceil>)"

definition to_float :: "externals \<Rightarrow> string \<Rightarrow> pyerror + real" where
  "to_float ext tok =
     (case py_float ext tok of
        None \<Rightarrow> Inl (ValueError ''could not convert string to float'')
      | Some x \<Rightarrow> Inr x)"

definition to_int :: "externals \<Rightarrow> string \<Rightarrow> pyerror + int" where
  "to_int ext tok =
     (case py_int ext tok of
        None \<Rightarrow> Inl (ValueError ''invalid literal for int() with base 10'')
      | Some x \<Rightarrow> Inr x)"

fun emap :: "('a \<Rightarrow> pyerror + 'b) \<Rightarrow> 'a list \<Rightarrow> pyerror + 'b list" where
  \<comment> \<open>a list comprehension whose body can raise\<close>
  "emap f [] = Inr []"
| "emap f (x # xs) = ebind (f x) (\<lambda>y. ebind (emap f xs) (\<lambda>ys. Inr (y # ys)))"

definition float_row :: "externals \<Rightarrow> string \<Rightarrow> pyerror + rvec" where
  \<comment> \<open>\<^verbatim>\<open>[float(item) for item in line.split()]\<close>\<close>
  "float_row ext line = emap (to_float ext) (py_split line)"

definition assign_row3 :: "rvec \<Rightarrow> pyerror + rvec" where
  \<comment> \<open>\<^verbatim>\<open>a[i, :] = v\<close> for a row of three entries: \<open>v\<close> has three entries, or one that is
      broadcast\<close>
  "assign_row3 v =
     (if length v = 3 then Inr v
      else if length v = 1 then Inr (replicate 3 (hd v))
      else Inl (ValueError ''could not broadcast input array''))"

subsection \<open>LoadFromQE\<close>

definition BOHR_TO_ANGSTROM :: real where
  "BOHR_TO_ANGSTROM = 52918 / 100000"

text \<open>
  Modelled from the spec: \<^verbatim>\<open>Structure.Structure()\<close>, the empty atomic structure, and
  \<^verbatim>\<open>set_masses\<close>, which stores the per-species mass table.
\<close>

definition Structure_init :: Structure where
  "Structure_init =
     \<lparr> N_atoms = 0, atoms = [], coords = [], masses = Map.empty,
       unit_cell = np_zeros2 3 3, has_unit_cell = False \<rparr>"

definition set_masses :: "Structure \<Rightarrow> (string \<rightharpoonup> real) \<Rightarrow> Structure" where
  "set_masses s masses_dict = s \<lparr> masses := masses_dict \<rparr>"

definition read_unit_cell :: "externals \<Rightarrow> string list \<Rightarrow> real \<Rightarrow> pyerror + rmat" where
  \<comment> \<open>\<^verbatim>\<open>for i in range(3): unit_cell[i, :] = np.array([...dynlines[4 + i]...]) * self.alat\<close>\<close>
  "read_unit_cell ext dynlines a =
     emap (\<lambda>i. ebind (py_nth dynlines (4 + i)) (\<lambda>l.
                ebind (float_row ext l) (\<lambda>v. assign_row3 (map (\<lambda>x. x * a) v))))
          [0, 1, 2]"

fun read_types ::
  "externals \<Rightarrow> string list \<Rightarrow> int list \<Rightarrow> (int \<rightharpoonup> string) \<times> (string \<rightharpoonup> real)
     \<Rightarrow> pyerror + ((int \<rightharpoonup> string) \<times> (string \<rightharpoonup> real))" where
  \<comment> \<open>\<^verbatim>\<open>for atom_index in range(1, ntyp + 1)\<close>\<close>
  "read_types ext dynlines [] d = Inr d"
| "read_types ext dynlines (atom_index # rest) (atoms_dict, masses_dict) =
     ebind (py_nth dynlines (6 + atom_index)) (\<lambda>atm_line.
     ebind (py_nth (py_split_on (CHR 0x27) atm_line) 1) (\<lambda>lab.
     ebind (py_nth (py_split_on (CHR 0x27) atm_line) (- 1)) (\<lambda>m.
     ebind (to_float ext (py_strip m)) (\<lambda>mass.
       read_types ext dynlines rest
         (atoms_dict(atom_index \<mapsto> py_strip lab), masses_dict(py_strip lab \<mapsto> mass))))))"

fun read_atoms ::
  "externals \<Rightarrow> string list \<Rightarrow> (int \<rightharpoonup> string) \<Rightarrow> real \<Rightarrow> int \<Rightarrow> nat list \<Rightarrow> Structure
     \<Rightarrow> pyerror + Structure" where
  \<comment> \<open>\<^verbatim>\<open>for i in range(nat)\<close>\<close>
  "read_atoms ext dynlines atoms_dict a ntyp [] s = Inr s"
| "read_atoms ext dynlines atoms_dict a ntyp (i # rest) s =
     ebind (py_nth dynlines (7 + ntyp + int i)) (\<lambda>l.
     ebind (float_row ext l) (\<lambda>atom_info.
     ebind (py_nth atom_info 1) (\<lambda>t.
     ebind (case atoms_dict (py_trunc t) of
              None \<Rightarrow> Inl (KeyError (py_str_int (py_trunc t)))
            | Some lab \<Rightarrow> Inr lab) (\<lambda>lab.
     ebind (assign_row3 (map (\<lambda>x. x * a) (drop 2 atom_info))) (\<lambda>row.
       read_atoms ext dynlines atoms_dict a ntyp rest
         (s \<lparr> atoms := atoms s @ [lab], coords := (coords s)[i := row] \<rparr>))))))"

definition load_structure ::
  "externals \<Rightarrow> phonons \<Rightarrow> string list \<Rightarrow> pyerror + (phonons \<times> string list)" where
  \<comment> \<open>the block \<^verbatim>\<open>if (iq == 0):\<close>; it returns the object and the lines, which the block may
      extend\<close>
  "load_structure ext self dynlines0 =
     ebind (py_nth dynlines0 2) (\<lambda>l2.
     let struct_info = py_split l2 in
     ebind (ebind (py_nth struct_info 2) (to_int ext)) (\<lambda>ibrav.
     ebind (emap (\<lambda>k. ebind (py_nth struct_info k) (to_float ext)) [3, 4, 5, 6, 7, 8]) (\<lambda>celldm.
     ebind (ebind (py_nth struct_info 1) (to_int ext)) (\<lambda>nat'.
     ebind (ebind (py_nth struct_info 0) (to_int ext)) (\<lambda>ntyp.
     let a = hd celldm * BOHR_TO_ANGSTROM in
     if nat' < 0 then Inl (ValueError ''negative dimensions are not allowed'')
     else
       ebind (if ibrav = 0
              then ebind (read_unit_cell ext dynlines0 a) (\<lambda>c. Inr (c, dynlines0))
              else Inr (get_unit_cell_from_ibrav ext ibrav celldm,
                        take 3 dynlines0 @ replicate 4 [] @ drop 3 dynlines0))
         (\<lambda>(cell, dynlines).
       ebind (read_types ext dynlines [1..ntyp] (Map.empty, Map.empty)) (\<lambda>(atoms_dict, masses_dict).
       ebind (the_structure self ''N_atoms'') (\<lambda>s0.
       let s1 = set_masses (s0 \<lparr> N_atoms := nat', coords := np_zeros2 (nat nat') 3 \<rparr>) masses_dict;
           s2 = s1 \<lparr> unit_cell := cell, has_unit_cell := True \<rparr>
       in ebind (read_atoms ext dynlines atoms_dict a ntyp [0..<nat nat'] s2) (\<lambda>s3.
            Inr (self \<lparr> alat := a, structure := Some s3 \<rparr>, dynlines))))))))))"

fun pop_to_cartesian :: "string list \<Rightarrow> pyerror + string list" where
  \<comment> \<open>the first \<^verbatim>\<open>while reading_dyn\<close> loop: drop the lines up to and including the first
      one that contains \<^verbatim>\<open>cartesian axes\<close>\<close>
  "pop_to_cartesian [] = Inl IndexError"
| "pop_to_cartesian (l # ls) =
     (if py_in ''cartesian axes'' l then Inr ls else pop_to_cartesian ls)"

record scan_state =
  current_dyn :: cmat
  atm_i :: int
  atm_j :: int
  coordline :: int
  dielectric_read :: int
  pol_read :: int
  reading_dielectric :: bool
  reading_eff_charges :: bool
  reading_raman :: bool
  q_star :: "rvec list"

definition init_scan :: "nat \<Rightarrow> scan_state" where
  "init_scan n =
     \<lparr> current_dyn = np_zeros2 n n, atm_i = 0, atm_j = 0, coordline = 0,
       dielectric_read = 0, pol_read = 0, reading_dielectric = False,
       reading_eff_charges = False, reading_raman = False, q_star = [] \<rparr>"

definition no_mode :: "scan_state \<Rightarrow> scan_state" where
  "no_mode sc = sc \<lparr> reading_dielectric := False, reading_eff_charges := False,
                     reading_raman := False \<rparr>"

fun set_dyn_row ::
  "externals \<Rightarrow> string list \<Rightarrow> int \<Rightarrow> int \<Rightarrow> int list \<Rightarrow> cmat \<Rightarrow> pyerror + cmat" where
  \<comment> \<open>\<^verbatim>\<open>for k in range(3): current_dyn[r, 3*atm_j + k] = float(n[2*k]) + 1j*float(n[2*k + 1])\<close>\<close>
  "set_dyn_row ext toks r cj [] d = Inr d"
| "set_dyn_row ext toks r cj (k # ks) d =
     ebind (ebind (py_nth toks (2 * k)) (to_float ext)) (\<lambda>re.
     ebind (ebind (py_nth toks (2 * k + 1)) (to_float ext)) (\<lambda>im.
     ebind (np_index (length d) r) (\<lambda>row.
     ebind (np_index (length (d ! row)) (cj + k)) (\<lambda>col.
       set_dyn_row ext toks r cj ks (d[row := (d ! row)[col := Complex re im]])))))"

definition read_numbers ::
  "externals \<Rightarrow> string \<Rightarrow> phonons \<times> scan_state \<Rightarrow> pyerror + (phonons \<times> scan_state)" where
  \<comment> \<open>the part of the loop body after the section markers (\<^verbatim>\<open># Read what is needed\<close>)\<close>
  "read_numbers ext line st =
     (case st of (self, sc) \<Rightarrow>
      let numbers_in_line = py_split line in
      if length numbers_in_line = 0 then Inr (self, sc)
      else if reading_dielectric sc then
        (if length numbers_in_line = 3 then
           ebind (emap (to_float ext) numbers_in_line) (\<lambda>row.
           case dielectric_tensor self of
             None \<Rightarrow> Inl (TypeError ''NoneType object does not support item assignment'')
           | Some d \<Rightarrow>
               ebind (np_index (length d) (dielectric_read sc)) (\<lambda>r.
                 Inr (self \<lparr> dielectric_tensor := Some (d[r := row]) \<rparr>,
                      sc \<lparr> dielectric_read := dielectric_read sc + 1 \<rparr>)))
         else Inr (self, sc))
      else if reading_eff_charges sc then
        (if py_lower (hd numbers_in_line) = ''atom'' then
           ebind (ebind (py_nth numbers_in_line 2) (to_int ext)) (\<lambda>k.
             Inr (self, sc \<lparr> atm_i := k - 1, dielectric_read := 0 \<rparr>))
         else if length numbers_in_line = 3 then
           ebind (emap (to_float ext) numbers_in_line) (\<lambda>row.
           case effective_charges self of
             None \<Rightarrow> Inl (TypeError ''NoneType object does not support item assignment'')
           | Some e \<Rightarrow>
               ebind (np_index (length e) (atm_i sc)) (\<lambda>a.
               ebind (np_index (length (e ! a)) (dielectric_read sc)) (\<lambda>r.
                 Inr (self \<lparr> effective_charges := Some (e[a := (e ! a)[r := row]]) \<rparr>,
                      sc \<lparr> dielectric_read := dielectric_read sc + 1 \<rparr>))))
         else Inr (self, sc))
      else if reading_raman sc then
        (if py_lower (hd numbers_in_line) = ''atom'' then
           ebind (ebind (py_nth numbers_in_line 2) (to_int ext)) (\<lambda>k.
           ebind (ebind (py_nth numbers_in_line 4) (to_int ext)) (\<lambda>p.
             Inr (self, sc \<lparr> atm_i := k - 1, pol_read := p - 1, dielectric_read := 0 \<rparr>)))
         else if length numbers_in_line = 3 then
           ebind (emap (to_float ext) numbers_in_line) (\<lambda>row.
           case raman_tensor self of
             None \<Rightarrow> Inl (TypeError ''NoneType object does not support item assignment'')
           | Some R \<Rightarrow>
               ebind (np_index (length R) (dielectric_read sc)) (\<lambda>r.
               ebind (np_index (length (hd (R ! r))) (3 * atm_i sc + pol_read sc)) (\<lambda>c.
                 Inr (self \<lparr> raman_tensor :=
                               Some (R[r := map2 (\<lambda>rj x. rj[c := x]) (R ! r) row]) \<rparr>,
                      sc \<lparr> dielectric_read := dielectric_read sc + 1 \<rparr>))))
         else Inr (self, sc))
      else
        (if length numbers_in_line = 2 then
           ebind (ebind (py_nth numbers_in_line 0) (to_int ext)) (\<lambda>i.
           ebind (ebind (py_nth numbers_in_line 1) (to_int ext)) (\<lambda>j.
             Inr (self, sc \<lparr> atm_i := i - 1, atm_j := j - 1, coordline := 0 \<rparr>)))
         else if length numbers_in_line = 6 then
           ebind (set_dyn_row ext numbers_in_line (3 * atm_i sc + coordline sc) (3 * atm_j sc)
                    [0, 1, 2] (current_dyn sc)) (\<lambda>d.
             Inr (self, sc \<lparr> current_dyn := d, coordline := coordline sc + 1 \<rparr>))
         else Inr (self, sc)))"

definition read_qpoint :: "externals \<Rightarrow> string \<Rightarrow> pyerror + rvec" where
  \<comment> \<open>\<^verbatim>\<open>[float(item) for item in line.replace("(", ")").split(')')[1].split()]\<close>\<close>
  "read_qpoint ext line =
     ebind (py_nth (py_split_on (CHR '')'') (map (\<lambda>c. if c = CHR ''('' then CHR '')'' else c) line)) 1)
       (float_row ext)"

fun read_dyn ::
  "externals \<Rightarrow> nat \<Rightarrow> string list \<Rightarrow> phonons \<times> scan_state \<Rightarrow> pyerror + (phonons \<times> scan_state)" where
  \<comment> \<open>the second \<^verbatim>\<open>while reading_dyn\<close> loop, on the lines from \<^verbatim>\<open>index + 1\<close> on; \<open>N\<close> is
      \<^verbatim>\<open>self.structure.N_atoms\<close>\<close>
  "read_dyn ext N [] st = Inl IndexError"
| "read_dyn ext N (l # ls) st =
     (case st of (self, sc) \<Rightarrow>
      if py_in ''Diagonalizing'' l
      then Inr (self \<lparr> dynmats := dynmats self @ [current_dyn sc] \<rparr>, sc)
      else if py_in ''Dielectric'' l
      then read_dyn ext N ls
             (self \<lparr> dielectric_tensor := Some (np_zeros2 3 3) \<rparr>,
              sc \<lparr> reading_dielectric := True, reading_eff_charges := False,
                   reading_raman := False, dielectric_read := 0 \<rparr>)
      else if py_in ''Effective'' l
      then read_dyn ext N ls
             (self \<lparr> effective_charges := Some (replicate N (np_zeros2 3 3)) \<rparr>,
              sc \<lparr> reading_dielectric := False, reading_eff_charges := True,
                   reading_raman := False \<rparr>)
      else if py_in ''Raman'' l
      then read_dyn ext N ls
             (self \<lparr> raman_tensor := Some (replicate 3 (np_zeros2 3 (3 * N))) \<rparr>,
              sc \<lparr> reading_dielectric := False, reading_eff_charges := False,
                   reading_raman := True \<rparr>)
      else if py_in ''q = '' l
      then ebind (read_qpoint ext l) (\<lambda>qpoint.
             read_dyn ext N ls
               (self \<lparr> q_tot := q_tot self @ [qpoint] \<rparr>,
                no_mode (sc \<lparr> q_star := q_star sc @ [qpoint] \<rparr>)))
      else if py_in ''ynamical'' l
      then read_dyn ext N ls
             (self \<lparr> dynmats := dynmats self @ [current_dyn sc] \<rparr>, no_mode sc)
      else ebind (read_numbers ext l (self, sc)) (read_dyn ext N ls))"

definition load_file :: "externals \<Rightarrow> phonons \<Rightarrow> nat \<Rightarrow> string list \<Rightarrow> pyerror + phonons" where
  \<comment> \<open>the body of \<^verbatim>\<open>for iq in range(nqirr)\<close> once the file has been read into \<^verbatim>\<open>dynlines\<close>\<close>
  "load_file ext self iq dynlines0 =
     ebind (if iq = 0 then load_structure ext self dynlines0 else Inr (self, dynlines0))
       (\<lambda>(self1, dynlines1).
     ebind (pop_to_cartesian dynlines1) (\<lambda>dynlines.
     ebind (the_structure self1 ''N_atoms'') (\<lambda>s.
     ebind (dim3N s) (\<lambda>n.
     ebind (read_dyn ext (nat (N_atoms s)) dynlines (self1, init_scan n)) (\<lambda>(self2, sc).
       Inr (self2 \<lparr> q_stars := q_stars self2 @ [q_star sc] \<rparr>))))))"

text \<open>
  The file system: a path that names a regular file is mapped to the lines
  \<^verbatim>\<open>readlines()\<close> returns.
\<close>

type_synonym filesystem = "string \<rightharpoonup> string list"

definition file_path :: "string \<Rightarrow> bool \<Rightarrow> nat \<Rightarrow> string" where
  \<comment> \<open>\<^verbatim>\<open>"%s%i" % (fildyn_prefix, iq + 1)\<close>, or the prefix itself with \<^verbatim>\<open>full_name\<close>\<close>
  "file_path fildyn_prefix full_name iq =
     (if \<not> full_name then fildyn_prefix @ py_str_int (int iq + 1) else fildyn_prefix)"

fun load_files ::
  "externals \<Rightarrow> filesystem \<Rightarrow> string \<Rightarrow> bool \<Rightarrow> nat list \<Rightarrow> phonons \<Rightarrow> pyerror + phonons" where
  \<comment> \<open>\<^verbatim>\<open>for iq in range(nqirr)\<close>\<close>
  "load_files ext fs fildyn_prefix full_name [] self = Inr self"
| "load_files ext fs fildyn_prefix full_name (iq # iqs) self =
     (let filepath = file_path fildyn_prefix full_name iq in
      case fs filepath of
        None \<Rightarrow> Inl (ValueError (''Error, file '' @ filepath @ '' does not exist.''))
      | Some content \<Rightarrow>
          ebind (load_file ext self iq (map py_strip content))
            (load_files ext fs fildyn_prefix full_name iqs))"

definition LoadFromQE ::
  "externals \<Rightarrow> filesystem \<Rightarrow> phonons \<Rightarrow> string \<Rightarrow> int \<Rightarrow> bool \<Rightarrow> pyerror + phonons" where
  "LoadFromQE ext fs self fildyn_prefix nqirr' full_name =
     (if nqirr' \<le> 0
      then Inl (ValueError ''Error, the specified nqirr is not valid: it must be positive!'')
      else if full_name \<and> nqirr' > 1
      then Inl (ValueError ''Error, with full_name only gamma matrices are loaded.'')
      else
        ebind (load_files ext fs fildyn_prefix full_name [0..<nat nqirr']
                 (self \<lparr> structure := Some Structure_init \<rparr>))
          (\<lambda>self1. Inr (self1 \<lparr> initialized := True \<rparr>)))"

subsection \<open>The constructor\<close>

text \<open>
  The first argument of the constructor: a path, a \<^verbatim>\<open>Structure\<close>, or a value of another
  type (\<^verbatim>\<open>None\<close> by default), for which neither branch runs.
\<close>

datatype init_arg = PathArg string | StructureArg Structure | NoneArg

definition iterate_int :: "int \<Rightarrow> pyerror + 'a list" where
  \<comment> \<open>\<^verbatim>\<open>for i in n\<close> with \<open>n\<close> an integer: Python raises when it asks for the iterator\<close>
  "iterate_int n = Inl (TypeError ''int object is not iterable'')"

definition Phonons_init ::
  "externals \<Rightarrow> filesystem \<Rightarrow> init_arg \<Rightarrow> int \<Rightarrow> bool \<Rightarrow> pyerror + phonons" where
  "Phonons_init ext fs structure' nqirr' full_name =
     (let self = Phonons_default \<lparr> nqirr := nqirr' \<rparr> in
      case structure' of
        PathArg path \<Rightarrow> LoadFromQE ext fs self path nqirr' full_name
      | StructureArg s \<Rightarrow>
          if N_atoms s \<le> 0
          then Inl (ValueError ''Error, the given structure cannot be empty.'')
          else if nqirr' \<le> 0
          then Inl (ValueError ''Error, nqirr argument must be a strictly positive number.'')
          else
            ebind (iterate_int nqirr') (\<lambda>is :: unit list.
              Inr (self \<lparr> structure := Some s,
                          dynmats := map (\<lambda>i. np_zeros2 (nat (3 * N_atoms s)) (nat (3 * N_atoms s))) is \<rparr>))
      | NoneArg \<Rightarrow> Inr self)"

subsection \<open>save_qe\<close>

text \<open>
  The conversions \<^verbatim>\<open>"%W.Pf" % x\<close> and \<^verbatim>\<open>"%Wd" % n\<close> of Python. A real number is written
  with \<open>P\<close> decimals after rounding to the nearest multiple of \<open>10 ^ (- P)\<close> (a number halfway
  between two is rounded away from zero), and padded with spaces on the left to the width
  \<open>W\<close>.
\<close>

definition rjust :: "nat \<Rightarrow> string \<Rightarrow> string" where
  "rjust w s = replicate (w - length s) (CHR '' '') @ s"

definition fmt_d :: "nat \<Rightarrow> int \<Rightarrow> string" where
  \<comment> \<open>\<^verbatim>\<open>"%Wd" % n\<close>\<close>
  "fmt_d w n = rjust w (py_str_int n)"

definition zfill :: "nat \<Rightarrow> string \<Rightarrow> string" where
  "zfill w s = replicate (w - length s) (CHR ''0'') @ s"

definition scaled :: "nat \<Rightarrow> real \<Rightarrow> nat" where
  \<comment> \<open>\<open>\<bar>x\<bar>\<close> in units of \<open>10 ^ (- p)\<close>, rounded\<close>
  "scaled p x = nat (round (\<bar>x\<bar> * 10 ^ p))"

definition fmt_f :: "nat \<Rightarrow> nat \<Rightarrow> real \<Rightarrow> string" where
  \<comment> \<open>\<^verbatim>\<open>"%W.Pf" % x\<close>\<close>
  "fmt_f w p x =
     rjust w ((if x < 0 then ''-'' else []) @ str_nat (scaled p x div 10 ^ p) @ ''.'' @
              zfill p (str_nat (scaled p x mod 10 ^ p)))"

definition A_TO_BOHR :: real where
  "A_TO_BOHR = 1889725989 / 10 ^ 9"

definition RyToCm :: real where
  "RyToCm = 10973737595 / 10 ^ 5"

definition RyToTHz :: real where
  "RyToTHz = 328984377 / 10 ^ 5"

definition newline :: string where
  "newline = [CHR 0x0A]"

definition join :: "string \<Rightarrow> string list \<Rightarrow> string" where
  \<comment> \<open>\<^verbatim>\<open>sep.join(xs)\<close>\<close>
  "join sep xs = concat (case xs of [] \<Rightarrow> [] | y # ys \<Rightarrow> y # map (\<lambda>s. sep @ s) ys)"

definition np_nth :: "'a list \<Rightarrow> int \<Rightarrow> pyerror + 'a" where
  \<comment> \<open>\<^verbatim>\<open>a[i]\<close> along the first axis of an array\<close>
  "np_nth xs i = ebind (np_index (length xs) i) (\<lambda>k. Inr (xs ! k))"

fun atom_types :: "Structure \<Rightarrow> nat list \<Rightarrow> string list \<Rightarrow> pyerror + string list" where
  \<comment> \<open>\<^verbatim>\<open>for i in range(n_atoms): if not atoms[i] in types: types.append(atoms[i])\<close>\<close>
  "atom_types s [] types = Inr types"
| "atom_types s (i # rest) types =
     ebind (py_nth (atoms s) (int i)) (\<lambda>a.
       atom_types s rest (if a \<in> set types then types else types @ [a]))"

definition itau_of :: "string list \<Rightarrow> string \<rightharpoonup> int" where
  \<comment> \<open>\<^verbatim>\<open>itau[types[i]] = i + 1\<close>\<close>
  "itau_of types = map_of (zip types (map (\<lambda>i. int i + 1) [0..<length types]))"

definition write_cell_row :: "Structure \<Rightarrow> real \<Rightarrow> int \<Rightarrow> pyerror + string" where
  "write_cell_row s a i =
     ebind (np_nth (unit_cell s) i) (\<lambda>row.
       Inr (join '' '' (map (\<lambda>x. fmt_f 12 8 (x / a)) row) @ newline))"

definition write_type :: "Structure \<Rightarrow> string list \<Rightarrow> nat \<Rightarrow> pyerror + string" where
  "write_type s types i =
     ebind (lookup_mass s (types ! i)) (\<lambda>m.
       Inr ([CHR 0x09] @ fmt_d 0 (int i + 1) @ ''  '' @ [CHR 0x27] @ types ! i @ '' '' @ [CHR 0x27]
            @ ''  '' @ fmt_f 0 8 m @ newline))"

definition write_atom :: "Structure \<Rightarrow> real \<Rightarrow> (string \<rightharpoonup> int) \<Rightarrow> nat \<Rightarrow> pyerror + string" where
  "write_atom s a itau i =
     ebind (np_nth (coords s) (int i)) (\<lambda>row.
     ebind (py_nth (atoms s) (int i)) (\<lambda>label.
     ebind (case itau label of None \<Rightarrow> Inl (KeyError label) | Some t \<Rightarrow> Inr t) (\<lambda>t.
     ebind (np_nth (map (\<lambda>x. x / a) row) 0) (\<lambda>c0.
     ebind (np_nth (map (\<lambda>x. x / a) row) 1) (\<lambda>c1.
     ebind (np_nth (map (\<lambda>x. x / a) row) 2) (\<lambda>c2.
       Inr (fmt_d 5 (int i + 1) @ '' '' @ fmt_d 5 t @ '' '' @ fmt_f 15 10 c0 @ '' ''
            @ fmt_f 15 10 c1 @ '' '' @ fmt_f 15 10 c2 @ newline)))))))"

definition q_line :: "rvec \<Rightarrow> pyerror + string" where
  \<comment> \<open>\<^verbatim>\<open>"     q = (    %.9f   %.9f   %.9f )\n" % (q[0], q[1], q[2])\<close>\<close>
  "q_line q =
     ebind (np_nth q 0) (\<lambda>q0.
     ebind (np_nth q 1) (\<lambda>q1.
     ebind (np_nth q 2) (\<lambda>q2.
       Inr (''     q = (    '' @ fmt_f 0 9 q0 @ ''   '' @ fmt_f 0 9 q1 @ ''   '' @ fmt_f 0 9 q2
            @ '' )'' @ newline))))"

definition dyn_entry :: "cmat \<Rightarrow> int \<Rightarrow> int \<Rightarrow> pyerror + complex" where
  \<comment> \<open>\<^verbatim>\<open>dyn[r, c]\<close>\<close>
  "dyn_entry d r c = ebind (np_nth d r) (\<lambda>row. np_nth row c)"

definition write_dyn_line :: "cmat \<Rightarrow> nat \<Rightarrow> nat \<Rightarrow> nat \<Rightarrow> pyerror + string" where
  \<comment> \<open>the line of the three complex entries \<^verbatim>\<open>dyn[3*i + x, 3*j .. 3*j + 2]\<close>\<close>
  "write_dyn_line d i j x =
     ebind (emap (\<lambda>k. dyn_entry d (int (3 * i + x)) (int (3 * j + k))) [0, 1, 2]) (\<lambda>zs.
       Inr (join ''   '' (map (\<lambda>z. fmt_f 12 8 (Re z) @ fmt_f 12 8 (Im z)) zs) @ newline))"

definition write_block :: "cmat \<Rightarrow> nat \<Rightarrow> nat \<Rightarrow> pyerror + string list" where
  \<comment> \<open>the header \<^verbatim>\<open>"%5d%5d\n" % (i + 1, j + 1)\<close> and the three lines of the block\<close>
  "write_block d i j =
     ebind (emap (write_dyn_line d i j) [0, 1, 2]) (\<lambda>ls.
       Inr ((fmt_d 5 (int i + 1) @ fmt_d 5 (int j + 1) @ newline) # ls))"

definition write_matrix :: "phonons \<Rightarrow> nat \<Rightarrow> nat \<Rightarrow> rvec \<Rightarrow> pyerror + string list" where
  \<comment> \<open>the body of \<^verbatim>\<open>for jq in range(nqstar)\<close> for the matrix number \<open>count_q\<close>\<close>
  "write_matrix self n_atoms count_q q =
     ebind (q_line q) (\<lambda>ql.
     ebind (emap (\<lambda>(i, j). ebind (py_nth (dynmats self) (int count_q)) (\<lambda>d. write_block d i j))
              (concat (map (\<lambda>i. map (\<lambda>j. (i, j)) [0..<n_atoms]) [0..<n_atoms]))) (\<lambda>blocks.
       Inr ([newline, ''     Dynamical Matrix in cartesian axes'' @ newline, newline, ql, newline]
            @ concat blocks)))"

definition write_mode :: "rvec \<Rightarrow> cmat \<Rightarrow> nat \<Rightarrow> nat \<Rightarrow> pyerror + string list" where
  \<comment> \<open>the frequency line of mode \<open>mu\<close> and its \<open>n_atoms\<close> lines of polarization; the last
      number of each line is \<^verbatim>\<open>np.imag(pol_vects[3*i+1, mu])\<close>, as in the source\<close>
  "write_mode freqs pol_vects n_atoms mu =
     ebind (emap (\<lambda>i.
              ebind (dyn_entry pol_vects (int (3 * i)) (int mu)) (\<lambda>z0.
              ebind (dyn_entry pol_vects (int (3 * i + 1)) (int mu)) (\<lambda>z1.
              ebind (dyn_entry pol_vects (int (3 * i + 2)) (int mu)) (\<lambda>z2.
                Inr (''( '' @ fmt_f 10 6 (Re z0) @ fmt_f 10 6 (Im z0) @ '' ''
                     @ fmt_f 10 6 (Re z1) @ fmt_f 10 6 (Im z1) @ '' ''
                     @ fmt_f 10 6 (Re z2) @ fmt_f 10 6 (Im z1) @ '' )'' @ newline)))))
            [0..<n_atoms]) (\<lambda>ls.
       Inr ((rjust 7 ''freq'' @ '' ('' @ fmt_d 5 (int mu + 1) @ '') = ''
             @ fmt_f 14 8 (freqs ! mu * RyToTHz) @ '' [THz] = ''
             @ fmt_f 14 8 (freqs ! mu * RyToCm) @ '' [cm-1]'' @ newline) # ls))"

definition write_head :: "phonons \<Rightarrow> nat \<Rightarrow> nat \<Rightarrow> pyerror + (string list \<times> nat)" where
  \<comment> \<open>the lines of the file for the irreducible point \<open>iq\<close> up to the line of stars that
      precedes the frequencies, and the value of \<^verbatim>\<open>count_q\<close> after them\<close>
  "write_head self iq count_q =
     ebind (the_structure self ''N_atoms'') (\<lambda>s.
     let n_atoms = nat (N_atoms s) in
     ebind (atom_types s [0..<n_atoms] []) (\<lambda>types.
     let itau = itau_of types;
         header = [''Dynamical matrix file'' @ newline,
                   ''File generated with the CellConstructor by Lorenzo Monacelli'' @ newline,
                   fmt_d 0 (int (length types)) @ '' '' @ fmt_d 0 (N_atoms s) @ '' '' @ fmt_d 0 0
                     @ '' '' @ fmt_f 0 8 (alat self * A_TO_BOHR)
                     @ concat (replicate 5 ('' '' @ fmt_f 0 8 0)) @ newline,
                   ''Basis vectors'' @ newline]
     in
     ebind (emap (write_cell_row s (alat self)) [0, 1, 2]) (\<lambda>cell_lines.
     ebind (emap (write_type s types) [0..<length types]) (\<lambda>type_lines.
     ebind (emap (write_atom s (alat self) itau) [0..<n_atoms]) (\<lambda>atom_lines.
     ebind (py_nth (q_stars self) (int iq)) (\<lambda>q_star.
     ebind (emap (\<lambda>jq. write_matrix self n_atoms (count_q + jq) (q_star ! jq))
              [0..<length q_star]) (\<lambda>matrices.
     ebind (ebind (py_nth q_star 0) q_line) (\<lambda>ql.
       Inr (header @ cell_lines @ type_lines @ atom_lines @ concat matrices
            @ [newline, ''     Diagonalizing the dynamical matrix'' @ newline, newline, ql, newline,
               replicate 75 (CHR ''*'') @ newline],
            count_q + length q_star)))))))))"

definition write_modes :: "rvec \<Rightarrow> cmat \<Rightarrow> nat \<Rightarrow> pyerror + string list" where
  \<comment> \<open>\<^verbatim>\<open>for mu in range(nmodes)\<close> and the closing line of stars\<close>
  "write_modes freqs pol_vects n_atoms =
     ebind (emap (write_mode freqs pol_vects n_atoms) [0..<length freqs]) (\<lambda>modes.
       Inr (concat modes @ [replicate 75 (CHR ''*'') @ newline]))"

definition write_file :: "externals \<Rightarrow> phonons \<Rightarrow> nat \<Rightarrow> nat \<Rightarrow> pyerror + (string list \<times> nat)" where
  \<comment> \<open>the lines of the file for the irreducible point \<open>iq\<close>: the matrices of its star, then the
      diagonalisation of the first of them\<close>
  "write_file ext self iq count_q =
     ebind (write_head self iq count_q) (\<lambda>(head_lines, count_q').
     ebind (DyagDinQ ext self (int count_q)) (\<lambda>(freqs, pol_vects).
     ebind (the_structure self ''N_atoms'') (\<lambda>s.
     ebind (write_modes freqs pol_vects (nat (N_atoms s))) (\<lambda>mode_lines.
       Inr (head_lines @ mode_lines, count_q')))))"

fun save_files ::
  "externals \<Rightarrow> phonons \<Rightarrow> string \<Rightarrow> bool \<Rightarrow> nat list \<Rightarrow> nat \<Rightarrow> filesystem \<Rightarrow> pyerror + filesystem" where
  \<comment> \<open>\<^verbatim>\<open>for iq in range(nqirr)\<close>\<close>
  "save_files ext self filename full_name [] count_q fs = Inr fs"
| "save_files ext self filename full_name (iq # iqs) count_q fs =
     ebind (write_file ext self iq count_q) (\<lambda>(content, count_q').
       save_files ext self filename full_name iqs count_q'
         (fs(file_path filename full_name iq \<mapsto> content)))"

definition save_qe ::
  "externals \<Rightarrow> phonons \<Rightarrow> string \<Rightarrow> bool \<Rightarrow> filesystem \<Rightarrow> pyerror + filesystem" where
  "save_qe ext self filename full_name fs =
     save_files ext self filename full_name
       [0..<nat (if full_name then 1 else nqirr self)] 0 fs"

subsection \<open>Predicates used in the statements\<close>


definition well_formed :: "phonons \<Rightarrow> bool" where
  \<comment> \<open>the structure is present, it lists \<open>N_atoms\<close> atoms of species that are in the mass
      table, and every stored matrix has the dimension \<open>3 N_atoms\<close>\<close>
  "well_formed p =
     (case structure p of
        None \<Rightarrow> False
      | Some s \<Rightarrow>
          0 \<le> N_atoms s \<and> length (atoms s) = nat (N_atoms s) \<and>
          list_all (\<lambda>a. masses s a \<noteq> None) (atoms s) \<and>
          list_all (is_shape (nat (3 * N_atoms s)) (nat (3 * N_atoms s))) (dynmats p))"

definition symmetric_matrix :: "rmat \<Rightarrow> bool" where
  "symmetric_matrix m = (\<forall>j<length m. \<forall>k<length m. m ! j ! k = m ! k ! j)"

definition positive_semidefinite :: "rmat \<Rightarrow> bool" where
  \<comment> \<open>the quadratic form, computed as \<^verbatim>\<open>GetProbability\<close> computes it, is never negative\<close>
  "positive_semidefinite m = (\<forall>x. length x = length m \<longrightarrow> 0 \<le> einsum_i_ij_j x m x)"

definition norm_factor :: "externals \<Rightarrow> rmat \<Rightarrow> real" where
  \<comment> \<open>the factor \<^verbatim>\<open>np.sqrt(det)\<close> of \<^verbatim>\<open>GetProbability\<close>\<close>
  "norm_factor ext ups =
     (let vals0 = np_linalg_eigvals ext ups;
          vals1 = map (\<lambda>i. vals0 ! i) (argsort (map abs vals0))
      in sqrt (prod_list (drop 3 (map (\<lambda>v. v / (2 * pi)) vals1))))"

subsection \<open>Instances of the library routines, and sample objects\<close>

text \<open>
  \<open>dec_float\<close> and \<open>dec_int\<close> read a plain decimal literal (an optional sign, digits, an
  optional point and digits), on which they agree with Python's \<^verbatim>\<open>float\<close> and \<^verbatim>\<open>int\<close>.
  \<open>diag_eig\<close> returns the diagonal of a matrix and the unit vectors: the eigenvalues and
  normalised eigenvectors when the matrix is diagonal.
\<close>

definition digit_of :: "char \<Rightarrow> nat option" where
  "digit_of c =
     (let k = (of_char c :: nat) in if 48 \<le> k \<and> k \<le> 57 then Some (k - 48) else None)"

fun digits_value :: "string \<Rightarrow> nat \<Rightarrow> nat option" where
  "digits_value [] acc = Some acc"
| "digits_value (c # cs) acc =
     (case digit_of c of None \<Rightarrow> None | Some d \<Rightarrow> digits_value cs (10 * acc + d))"

definition dec_nat :: "string \<Rightarrow> nat option" where
  "dec_nat s = (if s = [] then None else digits_value s 0)"

definition dec_int :: "string \<Rightarrow> int option" where
  "dec_int s =
     (case s of
        [] \<Rightarrow> None
      | c # cs \<Rightarrow>
          if c = CHR ''-'' then map_option (\<lambda>n. - int n) (dec_nat cs)
          else if c = CHR ''+'' then map_option int (dec_nat cs)
          else map_option int (dec_nat s))"

definition dec_float :: "string \<Rightarrow> real option" where
  "dec_float s =
     (let neg = (take 1 s = ''-'');
          body = (if take 1 s = ''-'' \<or> take 1 s = ''+'' then drop 1 s else s);
          ip = takeWhile (\<lambda>c. c \<noteq> CHR ''.'') body;
          fp = drop 1 (dropWhile (\<lambda>c. c \<noteq> CHR ''.'') body)
      in if ip = [] \<and> fp = [] then None
         else case (digits_value ip 0, digits_value fp 0) of
                (Some a, Some b) \<Rightarrow>
                  Some ((if neg then - 1 else 1) * (real a + real b / 10 ^ length fp))
              | _ \<Rightarrow> None)"

definition diag_eig :: "cmat \<Rightarrow> cvec \<times> cmat" where
  "diag_eig m =
     (map (\<lambda>i. m ! i ! i) [0..<length m],
      map (\<lambda>i. map (\<lambda>j. if i = j then 1 else 0) [0..<length m]) [0..<length m])"

definition diag_eigvals :: "rmat \<Rightarrow> rvec" where
  "diag_eigvals m = map (\<lambda>i. m ! i ! i) [0..<length m]"

definition std_externals :: externals where
  "std_externals =
     \<lparr> py_float = dec_float, py_int = dec_int, np_linalg_eig = diag_eig,
       np_linalg_eigvals = diag_eigvals,
       scipy_optimize_anderson = (\<lambda>F x. x),
       get_unit_cell_from_ibrav = (\<lambda>ibrav celldm. np_zeros2 3 3),
       covariant_coordinates = (\<lambda>cell v. v),
       change_unit_cell = (\<lambda>s cell. s \<lparr> unit_cell := cell \<rparr>) \<rparr>"

definition diag_matrix :: "'a::zero list \<Rightarrow> 'a list list" where
  "diag_matrix d = map (\<lambda>i. map (\<lambda>j. if i = j then d ! i else 0) [0..<length d]) [0..<length d]"

definition hydrogen :: "nat \<Rightarrow> Structure" where
  \<comment> \<open>\<open>k\<close> atoms of one species of mass 1, in a cubic cell\<close>
  "hydrogen k =
     \<lparr> N_atoms = int k, atoms = replicate k ''H'', coords = np_zeros2 k 3,
       masses = [''H'' \<mapsto> 1], unit_cell = diag_matrix [1, 1, 1], has_unit_cell = True \<rparr>"

definition gamma_set :: "nat \<Rightarrow> cmat \<Rightarrow> phonons" where
  \<comment> \<open>a set at Gamma holding one matrix, as the loader leaves it\<close>
  "gamma_set k dyn =
     Phonons_default \<lparr> structure := Some (hydrogen k), dynmats := [dyn], q_tot := [[0, 0, 0]],
                       q_stars := [[[0, 0, 0]]], initialized := True \<rparr>"

definition sample_file :: "string list" where
  \<comment> \<open>a dynamical-matrix file of one atom at Gamma, in the layout \<^verbatim>\<open>save_qe\<close> writes\<close>
  "sample_file =
     [''Dynamical matrix file'',
      ''File generated with the CellConstructor by Lorenzo Monacelli'',
      ''1 1 0 1.0 0.0 0.0 0.0 0.0 0.0'',
      ''Basis vectors'',
      ''  1.0   0.0   0.0'',
      ''  0.0   1.0   0.0'',
      ''  0.0   0.0   1.0'',
      [CHR 0x09] @ ''1  '' @ [CHR 0x27] @ ''H '' @ [CHR 0x27] @ ''  1.0'',
      ''    1     1    0.0    0.0    0.0'',
      [],
      ''     Dynamical Matrix in cartesian axes'',
      [],
      ''     q = (    0.0   0.0   0.0 )'',
      [],
      ''    1    1'',
      ''  4.0  0.0     0.0  0.0     0.0  0.0'',
      ''  0.0  0.0     1.0  0.0     0.0  0.0'',
      ''  0.0  0.0     0.0  0.0    -9.0  0.0'',
      [],
      ''     Diagonalizing the dynamical matrix'']"

definition sample_fs :: filesystem where
  \<comment> \<open>the file \<^verbatim>\<open>dyn1\<close> exists, \<^verbatim>\<open>dyn2\<close> does not\<close>
  "sample_fs = [''dyn1'' \<mapsto> sample_file]"

definition empty_file_fs :: filesystem where
  \<comment> \<open>the file \<^verbatim>\<open>dyn1\<close> exists and is empty, \<^verbatim>\<open>dyn2\<close> does not exist\<close>
  "empty_file_fs = [''dyn1'' \<mapsto> []]"

text \<open>
  A Hermitian matrix for one atom of unit mass, and an instance of \<^verbatim>\<open>np.linalg.eig\<close> that
  knows its eigenpairs and those of the matrix \<^verbatim>\<open>ForcePositiveDefinite\<close> makes of it
  (eigenvectors of norm 1 whose first largest component is real and positive, the
  normalisation of LAPACK); on any other matrix it is \<open>diag_eig\<close>.
\<close>

definition hermitian_sample :: cmat where
  "hermitian_sample =
     [[Complex (17/2) 0, Complex 0 (- 15/2), 0],
      [Complex 0 (15/2), Complex (17/2) 0, 0],
      [0, 0, 25]]"

definition first_pass_sample :: cmat where
  "first_pass_sample =
     [[Complex (17/2) 0, Complex 0 (15/2), 0],
      [Complex 0 (15/2), Complex (- 17/2) 0, 0],
      [0, 0, 25]]"

definition second_pass_sample :: cmat where
  "second_pass_sample = [[32/17, 0, 0], [0, 32/17, 0], [0, 0, 25]]"

definition hermitian_eig :: "cmat \<Rightarrow> cvec \<times> cmat" where
  "hermitian_eig m =
     (if m = hermitian_sample then
        ([1, 16, 25],
         [[Complex (1 / sqrt 2) 0, Complex (1 / sqrt 2) 0, 0],
          [Complex 0 (- 1 / sqrt 2), Complex 0 (1 / sqrt 2), 0],
          [0, 0, 1]])
      else if m = first_pass_sample then
        ([4, - 4, 25],
         [[Complex (5 / sqrt 34) 0, Complex 0 (- 3 / sqrt 34), 0],
          [Complex 0 (3 / sqrt 34), Complex (5 / sqrt 34) 0, 0],
          [0, 0, 1]])
      else diag_eig m)"

definition hermitian_externals :: externals where
  "hermitian_externals = std_externals \<lparr> np_linalg_eig := hermitian_eig \<rparr>"

definition eigen_decomposition :: "cmat \<Rightarrow> cvec \<times> cmat \<Rightarrow> bool" where
  \<comment> \<open>column \<open>k\<close> of the second component has norm 1 and is an eigenvector of \<open>m\<close> for the
      \<open>k\<close>-th value\<close>
  "eigen_decomposition m r =
     (case r of (vals, vects) \<Rightarrow>
        list_all (\<lambda>k.
            sum_list (map (\<lambda>c. (cmod (vects ! c ! k))\<^sup>2) [0..<length m]) = 1 \<and>
            list_all (\<lambda>r. sum_list (map (\<lambda>c. m ! r ! c * vects ! c ! k) [0..<length m])
                             = vals ! k * vects ! r ! k) [0..<length m])
          [0..<length m])"

definition sample_loaded :: phonons where
  \<comment> \<open>the set the loader makes of \<open>sample_file\<close>\<close>
  "sample_loaded =
     \<lparr> dynmats = [[[Complex 4 0, Complex 0 0, Complex 0 0],
                   [Complex 0 0, Complex 1 0, Complex 0 0],
                   [Complex 0 0, Complex 0 0, Complex (- 9) 0]]],
       nqirr = 1, q_tot = [[0, 0, 0]], dielectric_tensor = None,
       effective_charges = None, raman_tensor = None, alat = 52918 / 100000,
       initialized = True, q_stars = [[[0, 0, 0]]],
       structure = Some \<lparr> N_atoms = 1, atoms = [''H''], coords = [[0, 0, 0]],
                           masses = [''H'' \<mapsto> 1],
                           unit_cell = [[52918 / 100000, 0, 0], [0, 52918 / 100000, 0],
                                        [0, 0, 52918 / 100000]],
                           has_unit_cell = True \<rparr> \<rparr>"

definition saved_head :: "string list" where
  \<comment> \<open>the lines \<^verbatim>\<open>save_qe\<close> writes for \<open>sample_loaded\<close>, up to the frequencies\<close>
  "saved_head = map (\<lambda>l. l @ newline)
     [''Dynamical matrix file'',
      ''File generated with the CellConstructor by Lorenzo Monacelli'',
      ''1 1 0 1.00000520 0.00000000 0.00000000 0.00000000 0.00000000 0.00000000'',
      ''Basis vectors'',
      ''  1.00000000   0.00000000   0.00000000'',
      ''  0.00000000   1.00000000   0.00000000'',
      ''  0.00000000   0.00000000   1.00000000'',
      [CHR 0x09] @ ''1  '' @ [CHR 0x27] @ ''H '' @ [CHR 0x27] @ ''  1.00000000'',
      ''    1     1    0.0000000000    0.0000000000    0.0000000000'',
      [],
      ''     Dynamical Matrix in cartesian axes'',
      [],
      ''     q = (    0.000000000   0.000000000   0.000000000 )'',
      [],
      ''    1    1'',
      ''  4.00000000  0.00000000     0.00000000  0.00000000     0.00000000  0.00000000'',
      ''  0.00000000  0.00000000     1.00000000  0.00000000     0.00000000  0.00000000'',
      ''  0.00000000  0.00000000     0.00000000  0.00000000    -9.00000000  0.00000000'',
      [],
      ''     Diagonalizing the dynamical matrix'',
      [],
      ''     q = (    0.000000000   0.000000000   0.000000000 )'',
      [],
      ''***************************************************************************'']"

definition saved_modes :: "string list" where
  \<comment> \<open>the frequencies and polarization vectors \<^verbatim>\<open>save_qe\<close> writes for \<open>sample_loaded\<close>\<close>
  "saved_modes = map (\<lambda>l. l @ newline)
     [''   freq (    1) = -9869.53131000 [THz] = -329212.12785000 [cm-1]'',
      ''(   0.000000  0.000000   0.000000  0.000000   1.000000  0.000000 )'',
      ''   freq (    2) =  3289.84377000 [THz] = 109737.37595000 [cm-1]'',
      ''(   0.000000  0.000000   1.000000  0.000000   0.000000  0.000000 )'',
      ''   freq (    3) =  6579.68754000 [THz] = 219474.75190000 [cm-1]'',
      ''(   1.000000  0.000000   0.000000  0.000000   0.000000  0.000000 )'',
      ''***************************************************************************'']"

definition saved_file :: "string list" where
  "saved_file = saved_head @ saved_modes"

definition sample_reloaded :: phonons where
  \<comment> \<open>the set the loader makes of \<open>saved_file\<close>\<close>
  "sample_reloaded =
     sample_loaded
       \<lparr> alat := 100000520 / 10 ^ 8 * (52918 / 100000),
         structure := Some \<lparr> N_atoms = 1, atoms = [''H''], coords = [[0, 0, 0]],
                           masses = [''H'' \<mapsto> 1],
                           unit_cell = [[100000520 / 10 ^ 8 * (52918 / 100000), 0, 0],
                                        [0, 100000520 / 10 ^ 8 * (52918 / 100000), 0],
                                        [0, 0, 100000520 / 10 ^ 8 * (52918 / 100000)]],
                           has_unit_cell = True \<rparr> \<rparr>"

definition round_trip_view ::
  "phonons \<Rightarrow> cmat list \<times> rvec list list \<times> real \<times> (rmat \<times> rmat \<times> string list \<times> real option list) option" where
  \<comment> \<open>what a round trip is to preserve: the matrices, the stars, the length scale, and the
      coordinates, cell, species and masses of the structure\<close>
  "round_trip_view p =
     (dynmats p, q_stars p, alat p,
      map_option (\<lambda>s. (coords s, unit_cell s, atoms s, map (masses s) (atoms s))) (structure p))"

section \<open>Properties\<close>

subsection \<open>Auxiliary facts\<close>

lemma sqrt_4: "sqrt 4 = 2"
  by (rule real_sqrt_unique) simp_all

lemma sqrt_9: "sqrt 9 = 3"
  by (rule real_sqrt_unique) simp_all

lemma upt_3: "[0..<3] = [0, 1, 2]"
  by (simp add: upt_rec)

lemma upt_6: "[0..<6] = [0, 1, 2, 3, 4, 5]"
  by (simp add: upt_rec)

lemma replicate_2: "replicate 2 x = [x, x]"
  by (simp add: numeral_2_eq_2)

lemma replicate_3: "replicate 3 x = [x, x, x]"
  by (simp add: numeral_3_eq_3)

lemmas sample_defs =
  gamma_set_def hydrogen_def diag_matrix_def std_externals_def diag_eig_def diag_eigvals_def
  Phonons_default_def np_zeros2_def upt_3 upt_6 replicate_2 replicate_3

lemma sum_list_upt: "sum_list (map f [0..<n]) = (\<Sum>i<n. f i)"
  by (simp add: interv_sum_list_conv_sum_set_nat atLeast0LessThan)

lemma argsort_props:
  "distinct (argsort xs)" "set (argsort xs) = {0..<length xs}"
  "length (argsort xs) = length xs" "sorted (map (\<lambda>i. xs ! i) (argsort xs))"
  by (simp_all add: argsort_def)



lemma atom_masses_ok:
  "k \<le> length (atoms s) \<Longrightarrow> list_all (\<lambda>a. masses s a \<noteq> None) (atoms s) \<Longrightarrow>
   atom_masses s k = Inr (map (\<lambda>a. the (masses s a)) (take k (atoms s)))"
proof (induction k)
  case 0
  then show ?case by simp
next
  case (Suc k)
  then have "atoms s ! k \<in> set (atoms s)" by simp
  with Suc.prems have "masses s (atoms s ! k) \<noteq> None" by (auto simp: list_all_iff)
  with Suc show ?case
    by (auto simp: ebind_def py_nth_def lookup_mass_def take_Suc_conv_app_nth)
qed

lemma length_triple: "length (triple xs) = 3 * length xs"
  by (induction xs) (simp_all add: triple_def)

lemma DyagDinQ_ok_masses:
  "DyagDinQ ext self iq = Inr r \<Longrightarrow> structure self = Some s \<Longrightarrow>
   0 \<le> N_atoms s \<and> list_all (\<lambda>a. masses s a \<noteq> None) (atoms s)"
  by (auto simp: DyagDinQ_def ebind_def the_structure_def dim3N_def find_None_iff list_all_iff
           split: option.splits if_splits)

lemma DyagDinQ_sample_1:
  "DyagDinQ std_externals (gamma_set 1 (diag_matrix [4, 1, - 9])) 0
     = Inr ([- 3, 1, 2], [[0, 0, 1], [0, 1, 0], [1, 0, 0]])"
  by (simp add: DyagDinQ_def sample_defs ebind_def the_structure_def dim3N_def py_nth_def
      is_shape_def inv_sqrt_masses_def mult_elem_def freq_of_def argsort_def take_cols_def
      sqrt_4 sqrt_9 Let_def)

lemma DyagDinQ_sample_2:
  "DyagDinQ std_externals (gamma_set 2 (diag_matrix [1, 1, 1, 4, 4, 9])) 0
     = Inr ([1, 1, 1, 2, 2, 3], diag_matrix [1, 1, 1, 1, 1, 1])"
  by (simp add: DyagDinQ_def sample_defs ebind_def the_structure_def dim3N_def py_nth_def
      is_shape_def inv_sqrt_masses_def mult_elem_def freq_of_def argsort_def take_cols_def
      sqrt_4 sqrt_9 Let_def)

subsection \<open>A set built by the loader is well formed\<close>

text \<open>
  The loader, started on an object without matrices, returns a set that satisfies
  \<open>well_formed\<close>: the atoms come from the species table that also fills the mass table, and
  every matrix is an array of zeros of dimension \<open>3 N_atoms\<close> in which entries were assigned.
\<close>

lemma ebind_Inr_iff: "ebind m f = Inr y \<longleftrightarrow> (\<exists>x. m = Inr x \<and> f x = Inr y)"
  by (cases m) (simp_all add: ebind_def)

lemma read_types_dom:
  "read_types ext dynlines is (ad, md) = Inr (ad', md') \<Longrightarrow> ran ad \<subseteq> dom md \<Longrightarrow> ran ad' \<subseteq> dom md'"
proof (induction "is" arbitrary: ad md)
  case Nil
  then show ?case by simp
next
  case (Cons i rest)
  from Cons.prems(1) obtain lab mass where
    r: "read_types ext dynlines rest (ad(i \<mapsto> py_strip lab), md(py_strip lab \<mapsto> mass)) = Inr (ad', md')"
    by (auto simp: ebind_Inr_iff)
  have "ran (ad(i \<mapsto> py_strip lab)) \<subseteq> dom (md(py_strip lab \<mapsto> mass))"
    using Cons.prems(2) by (auto simp: ran_def dom_def split: if_splits)
  from Cons.IH[OF r this] show ?case .
qed

lemma read_atoms_inv:
  "read_atoms ext dynlines ad a ntyp is s = Inr s' \<Longrightarrow>
   N_atoms s' = N_atoms s \<and> masses s' = masses s \<and>
   (\<exists>ls. atoms s' = atoms s @ ls \<and> length ls = length is \<and> set ls \<subseteq> ran ad)"
proof (induction "is" arbitrary: s)
  case Nil
  then show ?case by simp
next
  case (Cons i rest)
  from Cons.prems obtain lab row k where
    l: "ad k = Some lab" and
    r: "read_atoms ext dynlines ad a ntyp rest
          (s \<lparr> atoms := atoms s @ [lab], coords := (coords s)[i := row] \<rparr>) = Inr s'"
    by (auto simp: ebind_Inr_iff split: option.splits)
  from Cons.IH[OF r] obtain ls where
    "N_atoms s' = N_atoms s" "masses s' = masses s"
    "atoms s' = (atoms s @ [lab]) @ ls" "length ls = length rest" "set ls \<subseteq> ran ad"
    by auto
  hence "N_atoms s' = N_atoms s" "masses s' = masses s"
    "atoms s' = atoms s @ (lab # ls)" "length (lab # ls) = length (i # rest)" "set ls \<subseteq> ran ad"
    by auto
  moreover from l have "lab \<in> ran ad" by (auto simp: ran_def)
  ultimately show ?case
    by (intro conjI exI[of _ "lab # ls"]) auto
qed

lemma ebind_InrE:
  assumes "ebind m f = Inr y"
  obtains x where "m = Inr x" "f x = Inr y"
  using assms by (auto simp: ebind_Inr_iff)

lemma load_structure_inv:
  assumes L: "load_structure ext self dynlines0 = Inr (self', dynlines)"
    and S: "structure self = Some s0" and A: "atoms s0 = []"
  shows "dynmats self' = dynmats self \<and>
         (\<exists>s. structure self' = Some s \<and> 0 \<le> N_atoms s \<and> length (atoms s) = nat (N_atoms s) \<and>
              list_all (\<lambda>a. masses s a \<noteq> None) (atoms s))"
proof -
  from L[unfolded load_structure_def Let_def] obtain l2 where
    1: "ebind (ebind (py_nth (py_split l2) 2) (to_int ext)) (\<lambda>ibrav.
     ebind (emap (\<lambda>k. ebind (py_nth (py_split l2) k) (to_float ext)) [3, 4, 5, 6, 7, 8]) (\<lambda>celldm.
     ebind (ebind (py_nth (py_split l2) 1) (to_int ext)) (\<lambda>nat'.
     ebind (ebind (py_nth (py_split l2) 0) (to_int ext)) (\<lambda>ntyp.
     if nat' < 0 then Inl (ValueError ''negative dimensions are not allowed'')
     else
       ebind (if ibrav = 0
              then ebind (read_unit_cell ext dynlines0 (hd celldm * BOHR_TO_ANGSTROM)) (\<lambda>c. Inr (c, dynlines0))
              else Inr (get_unit_cell_from_ibrav ext ibrav celldm,
                        take 3 dynlines0 @ replicate 4 [] @ drop 3 dynlines0))
         (\<lambda>(cell, dynlines).
       ebind (read_types ext dynlines [1..ntyp] (Map.empty, Map.empty)) (\<lambda>(atoms_dict, masses_dict).
       ebind (the_structure self ''N_atoms'') (\<lambda>s0.
        ebind (read_atoms ext dynlines atoms_dict (hd celldm * BOHR_TO_ANGSTROM) ntyp [0..<nat nat']
            (set_masses (s0 \<lparr> N_atoms := nat', coords := np_zeros2 (nat nat') 3 \<rparr>) masses_dict
               \<lparr> unit_cell := cell, has_unit_cell := True \<rparr>)) (\<lambda>s3.
            Inr (self \<lparr> alat := hd celldm * BOHR_TO_ANGSTROM, structure := Some s3 \<rparr>, dynlines))))))))) = Inr (self', dynlines)"
    by (rule ebind_InrE)
  from 1 obtain ibrav celldm nat' ntyp where
    2: "(if nat' < 0 then Inl (ValueError ''negative dimensions are not allowed'')
     else
       ebind (if ibrav = 0
              then ebind (read_unit_cell ext dynlines0 (hd celldm * BOHR_TO_ANGSTROM)) (\<lambda>c. Inr (c, dynlines0))
              else Inr (get_unit_cell_from_ibrav ext ibrav celldm,
                        take 3 dynlines0 @ replicate 4 [] @ drop 3 dynlines0))
         (\<lambda>(cell, dynlines).
       ebind (read_types ext dynlines [1..ntyp] (Map.empty, Map.empty)) (\<lambda>(atoms_dict, masses_dict).
       ebind (the_structure self ''N_atoms'') (\<lambda>s0.
        ebind (read_atoms ext dynlines atoms_dict (hd celldm * BOHR_TO_ANGSTROM) ntyp [0..<nat nat']
            (set_masses (s0 \<lparr> N_atoms := nat', coords := np_zeros2 (nat nat') 3 \<rparr>) masses_dict
               \<lparr> unit_cell := cell, has_unit_cell := True \<rparr>)) (\<lambda>s3.
            Inr (self \<lparr> alat := hd celldm * BOHR_TO_ANGSTROM, structure := Some s3 \<rparr>, dynlines)))))) = Inr (self', dynlines)"
    by (elim ebind_InrE) blast
  from 2 have n0: "0 \<le> nat'" by (simp split: if_splits)
  from 2 n0 have "ebind (if ibrav = 0
              then ebind (read_unit_cell ext dynlines0 (hd celldm * BOHR_TO_ANGSTROM)) (\<lambda>c. Inr (c, dynlines0))
              else Inr (get_unit_cell_from_ibrav ext ibrav celldm,
                        take 3 dynlines0 @ replicate 4 [] @ drop 3 dynlines0))
         (\<lambda>(cell, dynlines).
       ebind (read_types ext dynlines [1..ntyp] (Map.empty, Map.empty)) (\<lambda>(atoms_dict, masses_dict).
       ebind (the_structure self ''N_atoms'') (\<lambda>s0.
        ebind (read_atoms ext dynlines atoms_dict (hd celldm * BOHR_TO_ANGSTROM) ntyp [0..<nat nat']
            (set_masses (s0 \<lparr> N_atoms := nat', coords := np_zeros2 (nat nat') 3 \<rparr>) masses_dict
               \<lparr> unit_cell := cell, has_unit_cell := True \<rparr>)) (\<lambda>s3.
            Inr (self \<lparr> alat := hd celldm * BOHR_TO_ANGSTROM, structure := Some s3 \<rparr>, dynlines))))) = Inr (self', dynlines)"
    by simp
  then obtain cd where
    "(case cd of (cell, dynlines) \<Rightarrow>
       ebind (read_types ext dynlines [1..ntyp] (Map.empty, Map.empty)) (\<lambda>(atoms_dict, masses_dict).
       ebind (the_structure self ''N_atoms'') (\<lambda>s0.
        ebind (read_atoms ext dynlines atoms_dict (hd celldm * BOHR_TO_ANGSTROM) ntyp [0..<nat nat']
            (set_masses (s0 \<lparr> N_atoms := nat', coords := np_zeros2 (nat nat') 3 \<rparr>) masses_dict
               \<lparr> unit_cell := cell, has_unit_cell := True \<rparr>)) (\<lambda>s3.
            Inr (self \<lparr> alat := hd celldm * BOHR_TO_ANGSTROM, structure := Some s3 \<rparr>, dynlines))))) = Inr (self', dynlines)"
    by (rule ebind_InrE)
  then obtain cell dl where
    3: "ebind (read_types ext dl [1..ntyp] (Map.empty, Map.empty)) (\<lambda>(atoms_dict, masses_dict).
       ebind (the_structure self ''N_atoms'') (\<lambda>s0.
        ebind (read_atoms ext dl atoms_dict (hd celldm * BOHR_TO_ANGSTROM) ntyp [0..<nat nat']
            (set_masses (s0 \<lparr> N_atoms := nat', coords := np_zeros2 (nat nat') 3 \<rparr>) masses_dict
               \<lparr> unit_cell := cell, has_unit_cell := True \<rparr>)) (\<lambda>s3.
            Inr (self \<lparr> alat := hd celldm * BOHR_TO_ANGSTROM, structure := Some s3 \<rparr>, dl)))) = Inr (self', dynlines)"
    by (cases cd) simp
  from 3 obtain adm where
    4: "(case adm of (atoms_dict, masses_dict) \<Rightarrow>
       ebind (the_structure self ''N_atoms'') (\<lambda>s0.
        ebind (read_atoms ext dl atoms_dict (hd celldm * BOHR_TO_ANGSTROM) ntyp [0..<nat nat']
            (set_masses (s0 \<lparr> N_atoms := nat', coords := np_zeros2 (nat nat') 3 \<rparr>) masses_dict
               \<lparr> unit_cell := cell, has_unit_cell := True \<rparr>)) (\<lambda>s3.
            Inr (self \<lparr> alat := hd celldm * BOHR_TO_ANGSTROM, structure := Some s3 \<rparr>, dl)))) = Inr (self', dynlines)"
    and rt0: "read_types ext dl [1..ntyp] (Map.empty, Map.empty) = Inr adm"
    by (rule ebind_InrE)
  obtain ad md where adm: "adm = (ad, md)" by (cases adm)
  from 4 adm S have "ebind (read_atoms ext dl ad (hd celldm * BOHR_TO_ANGSTROM) ntyp [0..<nat nat']
            (set_masses (s0 \<lparr> N_atoms := nat', coords := np_zeros2 (nat nat') 3 \<rparr>) md
               \<lparr> unit_cell := cell, has_unit_cell := True \<rparr>)) (\<lambda>s3.
            Inr (self \<lparr> alat := hd celldm * BOHR_TO_ANGSTROM, structure := Some s3 \<rparr>, dl)) = Inr (self', dynlines)"
    by (simp add: the_structure_def ebind_def)
  with rt0 adm obtain s3 where
    rt: "read_types ext dl [1..ntyp] (Map.empty, Map.empty) = Inr (ad, md)" and
    ra: "read_atoms ext dl ad (hd celldm * BOHR_TO_ANGSTROM) ntyp [0..<nat nat']
            (set_masses (s0 \<lparr> N_atoms := nat', coords := np_zeros2 (nat nat') 3 \<rparr>) md
               \<lparr> unit_cell := cell, has_unit_cell := True \<rparr>) = Inr s3" and
    res: "self' = self \<lparr> alat := hd celldm * BOHR_TO_ANGSTROM, structure := Some s3 \<rparr>"
    by (auto elim!: ebind_InrE)
  from read_types_dom[OF rt] have dm: "ran ad \<subseteq> dom md" by simp
  from read_atoms_inv[OF ra] obtain ls where
    s3: "N_atoms s3 = nat'" "masses s3 = md" "atoms s3 = ls" "length ls = nat nat'"
        "set ls \<subseteq> ran ad"
    using A by (auto simp: set_masses_def)
  have "list_all (\<lambda>a. masses s3 a \<noteq> None) (atoms s3)"
    using s3 dm by (auto simp: list_all_iff dom_def)
  with s3 n0 res show ?thesis by auto
qed

lemma is_shape_update:
  "is_shape n m (d[row := (d ! row)[col := x]]) = is_shape n m d"
  by (cases "row < length d")
     (auto simp: is_shape_def list_all_length nth_list_update list_update_beyond)

lemma set_dyn_row_shape:
  "set_dyn_row ext toks r cj ks d = Inr d' \<Longrightarrow> is_shape n m d' = is_shape n m d"
proof (induction ks arbitrary: d)
  case Nil
  then show ?case by simp
next
  case (Cons k ks)
  from Cons.prems(1) obtain re im row col where
    r: "set_dyn_row ext toks r cj ks (d[row := (d ! row)[col := Complex re im]]) = Inr d'"
    unfolding set_dyn_row.simps by (elim ebind_InrE) blast
  from Cons.IH[OF r] show ?case by (simp add: is_shape_update)
qed

lemma read_numbers_inv:
  assumes "read_numbers ext line (self, sc) = Inr (self', sc')"
    and "is_shape n m (current_dyn sc)"
  shows "structure self' = structure self \<and> dynmats self' = dynmats self \<and>
         is_shape n m (current_dyn sc')"
  using assms
  by (auto simp: read_numbers_def Let_def set_dyn_row_shape simp del: set_dyn_row.simps
           elim!: ebind_InrE split: if_splits option.splits)

lemma no_mode_dyn [simp]: "current_dyn (no_mode sc) = current_dyn sc"
  by (simp add: no_mode_def)

lemma read_dyn_inv:
  "read_dyn ext N ls (self, sc) = Inr (self', sc') \<Longrightarrow>
   is_shape n m (current_dyn sc) \<Longrightarrow> list_all (is_shape n m) (dynmats self) \<Longrightarrow>
   structure self' = structure self \<and> list_all (is_shape n m) (dynmats self')"
proof (induction ls arbitrary: self sc)
  case Nil
  then show ?case by simp
next
  case (Cons l ls)
  show ?case
  proof (cases "py_in ''Diagonalizing'' l")
    case True
    with Cons.prems show ?thesis by auto
  next
    case d: False
    show ?thesis
    proof (cases "py_in ''Dielectric'' l")
      case True
      with d Cons.prems(1) have
        "read_dyn ext N ls
             (self \<lparr> dielectric_tensor := Some (np_zeros2 3 3) \<rparr>,
              sc \<lparr> reading_dielectric := True, reading_eff_charges := False,
                   reading_raman := False, dielectric_read := 0 \<rparr>) = Inr (self', sc')"
        by simp
      from Cons.IH[OF this] Cons.prems(2,3) show ?thesis by simp
    next
      case e: False
      show ?thesis
      proof (cases "py_in ''Effective'' l")
        case True
        with d e Cons.prems(1) have
          "read_dyn ext N ls
             (self \<lparr> effective_charges := Some (replicate N (np_zeros2 3 3)) \<rparr>,
              sc \<lparr> reading_dielectric := False, reading_eff_charges := True,
                   reading_raman := False \<rparr>) = Inr (self', sc')"
          by simp
        from Cons.IH[OF this] Cons.prems(2,3) show ?thesis by simp
      next
        case f: False
        show ?thesis
        proof (cases "py_in ''Raman'' l")
          case True
          with d e f Cons.prems(1) have
            "read_dyn ext N ls
             (self \<lparr> raman_tensor := Some (replicate 3 (np_zeros2 3 (3 * N))) \<rparr>,
              sc \<lparr> reading_dielectric := False, reading_eff_charges := False,
                   reading_raman := True \<rparr>) = Inr (self', sc')"
            by simp
          from Cons.IH[OF this] Cons.prems(2,3) show ?thesis by simp
        next
          case g: False
          show ?thesis
          proof (cases "py_in ''q = '' l")
            case True
            with d e f g Cons.prems(1) obtain qpoint where
              "read_dyn ext N ls
               (self \<lparr> q_tot := q_tot self @ [qpoint] \<rparr>,
                no_mode (sc \<lparr> q_star := q_star sc @ [qpoint] \<rparr>)) = Inr (self', sc')"
              by (auto elim!: ebind_InrE)
            from Cons.IH[OF this] Cons.prems(2,3) show ?thesis by simp
          next
            case h: False
            show ?thesis
            proof (cases "py_in ''ynamical'' l")
              case True
              with d e f g h Cons.prems(1) have
                "read_dyn ext N ls
                   (self \<lparr> dynmats := dynmats self @ [current_dyn sc] \<rparr>, no_mode sc) = Inr (self', sc')"
                by simp
              from Cons.IH[OF this] Cons.prems(2,3) show ?thesis by simp
            next
              case False
              with d e f g h Cons.prems(1) obtain st where
                rn: "read_numbers ext l (self, sc) = Inr st" and
                rd: "read_dyn ext N ls st = Inr (self', sc')"
                by (auto elim!: ebind_InrE)
              obtain self1 sc1 where st: "st = (self1, sc1)" by (cases st)
              from read_numbers_inv[OF rn[unfolded st] Cons.prems(2)]
              have i: "structure self1 = structure self" "dynmats self1 = dynmats self"
                "is_shape n m (current_dyn sc1)" by auto
              from Cons.IH[OF rd[unfolded st] i(3)] Cons.prems(3) i(1,2)
              show ?thesis by simp
            qed
          qed
        qed
      qed
    qed
  qed
qed

lemma is_shape_zeros: "is_shape n m (np_zeros2 n m)"
  by (simp add: is_shape_def np_zeros2_def list_all_iff)

lemma load_file_rest:
  assumes L: "ebind (pop_to_cartesian dynlines1) (\<lambda>dynlines.
     ebind (the_structure self1 ''N_atoms'') (\<lambda>s.
     ebind (dim3N s) (\<lambda>n.
     ebind (read_dyn ext (nat (N_atoms s)) dynlines (self1, init_scan n)) (\<lambda>(self2, sc).
       Inr (self2 \<lparr> q_stars := q_stars self2 @ [q_star sc] \<rparr>))))) = Inr p"
    and W: "well_formed self1"
  shows "well_formed p"
proof -
  from W obtain s where s: "structure self1 = Some s"
    and sh: "list_all (is_shape (nat (3 * N_atoms s)) (nat (3 * N_atoms s))) (dynmats self1)"
    and N0: "0 \<le> N_atoms s"
    by (auto simp: well_formed_def split: option.splits)
  from L s N0 obtain dynlines st where
    rd: "read_dyn ext (nat (N_atoms s)) dynlines (self1, init_scan (nat (3 * N_atoms s))) = Inr st"
    and p: "p = (case st of (self2, sc) \<Rightarrow> self2 \<lparr> q_stars := q_stars self2 @ [q_star sc] \<rparr>)"
    by (auto elim!: ebind_InrE simp: the_structure_def dim3N_def split: prod.splits)
  obtain self2 sc where st: "st = (self2, sc)" by (cases st)
  have "is_shape (nat (3 * N_atoms s)) (nat (3 * N_atoms s))
          (current_dyn (init_scan (nat (3 * N_atoms s))))"
    by (simp add: init_scan_def is_shape_zeros)
  from read_dyn_inv[OF rd[unfolded st] this sh]
  have "structure self2 = structure self1"
    "list_all (is_shape (nat (3 * N_atoms s)) (nat (3 * N_atoms s))) (dynmats self2)"
    by auto
  with W s p st show ?thesis by (simp add: well_formed_def)
qed

lemma load_file_first:
  assumes L: "load_file ext self 0 dynlines0 = Inr p"
    and S: "structure self = Some s0" and A: "atoms s0 = []" and D: "dynmats self = []"
  shows "well_formed p"
proof -
  from L obtain sd where
    ls: "load_structure ext self dynlines0 = Inr sd" and
    r: "(case sd of (self1, dynlines1) \<Rightarrow>
      ebind (pop_to_cartesian dynlines1) (\<lambda>dynlines.
     ebind (the_structure self1 ''N_atoms'') (\<lambda>s.
     ebind (dim3N s) (\<lambda>n.
     ebind (read_dyn ext (nat (N_atoms s)) dynlines (self1, init_scan n)) (\<lambda>(self2, sc).
       Inr (self2 \<lparr> q_stars := q_stars self2 @ [q_star sc] \<rparr>)))))) = Inr p"
    unfolding load_file_def by (elim ebind_InrE) simp
  obtain self1 dynlines1 where sd: "sd = (self1, dynlines1)" by (cases sd)
  from load_structure_inv[OF ls[unfolded sd] S A] D have "well_formed self1"
    by (auto simp: well_formed_def)
  from load_file_rest[OF r[unfolded sd, simplified] this] show ?thesis .
qed

lemma load_file_next:
  assumes L: "load_file ext self iq dynlines0 = Inr p" and iq: "iq \<noteq> 0"
    and W: "well_formed self"
  shows "well_formed p"
proof -
  from L iq have "ebind (pop_to_cartesian dynlines0) (\<lambda>dynlines.
     ebind (the_structure self ''N_atoms'') (\<lambda>s.
     ebind (dim3N s) (\<lambda>n.
     ebind (read_dyn ext (nat (N_atoms s)) dynlines (self, init_scan n)) (\<lambda>(self2, sc).
       Inr (self2 \<lparr> q_stars := q_stars self2 @ [q_star sc] \<rparr>))))) = Inr p"
    by (simp add: load_file_def ebind_def)
  from load_file_rest[OF this W] show ?thesis .
qed

lemma load_files_next:
  "load_files ext fs pfx full_name iqs self = Inr p \<Longrightarrow> 0 \<notin> set iqs \<Longrightarrow>
   well_formed self \<Longrightarrow> well_formed p"
proof (induction iqs arbitrary: self)
  case Nil
  then show ?case by simp
next
  case (Cons iq iqs)
  from Cons.prems(1) obtain content self1 where
    lf: "load_file ext self iq (map py_strip content) = Inr self1" and
    r: "load_files ext fs pfx full_name iqs self1 = Inr p"
    by (auto simp: Let_def elim!: ebind_InrE split: option.splits)
  from Cons.prems(2) have "iq \<noteq> 0" "0 \<notin> set iqs" by auto
  from Cons.IH[OF r this(2) load_file_next[OF lf this(1) Cons.prems(3)]] show ?case .
qed

lemma LoadFromQE_well_formed:
  assumes L: "LoadFromQE ext fs self pfx n full_name = Inr p" and D: "dynmats self = []"
  shows "well_formed p \<and> initialized p"
proof -
  from L have n: "0 < n" by (simp add: LoadFromQE_def split: if_splits)
  with L obtain self1 where
    lf: "load_files ext fs pfx full_name [0..<nat n] (self \<lparr> structure := Some Structure_init \<rparr>)
           = Inr self1" and p: "p = self1 \<lparr> initialized := True \<rparr>"
    by (auto simp: LoadFromQE_def elim!: ebind_InrE split: if_splits)
  from n have "[0..<nat n] = 0 # [1..<nat n]" by (simp add: upt_conv_Cons)
  with lf obtain content self0 where
    f: "load_file ext (self \<lparr> structure := Some Structure_init \<rparr>) 0 (map py_strip content)
          = Inr self0" and
    r: "load_files ext fs pfx full_name [1..<nat n] self0 = Inr self1"
    by (auto simp: Let_def elim!: ebind_InrE split: option.splits)
  have "well_formed self0"
    by (rule load_file_first[OF f, of Structure_init]) (simp_all add: Structure_init_def D)
  from load_files_next[OF r _ this] have "well_formed self1" by simp
  with p show ?thesis by (simp add: well_formed_def split: option.splits)
qed

lemma Phonons_init_well_formed:
  "Phonons_init ext fs (PathArg path) n full_name = Inr p \<Longrightarrow> well_formed p \<and> initialized p"
  by (rule LoadFromQE_well_formed[of ext fs "Phonons_default \<lparr> nqirr := n \<rparr>" path n full_name])
     (simp_all add: Phonons_init_def Phonons_default_def)

subsection \<open>DyagDinQ: frequency convention and ordering\<close>



subsection \<open>GetUpsilonMatrix at zero temperature\<close>

lemma quadratic_form_of_outer_products:
  fixes f :: "nat \<Rightarrow> real"
  shows "(\<Sum>i<n. \<Sum>j<n. y i * ((\<Sum>k<m. f k * p i k * p j k) * c j * c i) * y j)
       = (\<Sum>k<m. f k * (\<Sum>i<n. y i * c i * p i k)\<^sup>2)"
proof -
  have "(\<Sum>k<m. f k * (\<Sum>i<n. y i * c i * p i k)\<^sup>2)
      = (\<Sum>k<m. \<Sum>i<n. \<Sum>j<n. y i * (f k * p i k * p j k * c j * c i) * y j)"
    by (simp add: power2_eq_square sum_product sum_distrib_left algebra_simps)
  also have "\<dots> = (\<Sum>i<n. \<Sum>k<m. \<Sum>j<n. y i * (f k * p i k * p j k * c j * c i) * y j)"
    by (rule sum.swap)
  also have "\<dots> = (\<Sum>i<n. \<Sum>j<n. \<Sum>k<m. y i * (f k * p i k * p j k * c j * c i) * y j)"
    by (rule sum.cong[OF refl]) (rule sum.swap)
  also have "\<dots> = (\<Sum>i<n. \<Sum>j<n. y i * ((\<Sum>k<m. f k * p i k * p j k) * c j * c i) * y j)"
    by (simp add: sum_distrib_left sum_distrib_right algebra_simps)
  finally show ?thesis by simp
qed

lemma times_masses_nth:
  "r < length mass1 \<Longrightarrow> c < length mass1 \<Longrightarrow>
   times_masses mass1 m ! r ! c = m ! r ! c * mass1 ! c * mass1 ! r"
  by (simp add: times_masses_def)

lemma length_times_masses: "length (times_masses mass1 m) = length mass1"
  by (simp add: times_masses_def)

lemma einsum_i_ji_ki_nth:
  "j < length a \<Longrightarrow> k < length b \<Longrightarrow>
   einsum_i_ji_ki f a b ! j ! k = (\<Sum>i<length f. f ! i * a ! j ! i * b ! k ! i)"
  by (simp add: einsum_i_ji_ki_def sum_list_upt)

lemma symmetric_times_masses:
  "length pols = length mass1 \<Longrightarrow>
   symmetric_matrix (times_masses mass1 (einsum_i_ji_ki f pols pols))"
  by (simp add: symmetric_matrix_def length_times_masses times_masses_nth einsum_i_ji_ki_nth
        mult.commute mult.left_commute)

lemma psd_times_masses:
  assumes len: "length pols = length mass1" and nn: "\<forall>x\<in>set f. 0 \<le> x"
  shows "positive_semidefinite (times_masses mass1 (einsum_i_ji_ki f pols pols))"
  unfolding positive_semidefinite_def
proof (intro allI impI)
  fix x :: "real list"
  let ?n = "length mass1"
  assume "length x = length (times_masses mass1 (einsum_i_ji_ki f pols pols))"
  then have lx: "length x = ?n" by (simp add: length_times_masses)
  have "einsum_i_ij_j x (times_masses mass1 (einsum_i_ji_ki f pols pols)) x
      = (\<Sum>i<?n. \<Sum>j<?n. x ! i * ((\<Sum>k<length f. f ! k * pols ! i ! k * pols ! j ! k)
                                       * mass1 ! j * mass1 ! i) * x ! j)"
    unfolding einsum_i_ij_j_def sum_list_upt lx
    by (intro sum.cong refl) (simp add: times_masses_nth einsum_i_ji_ki_nth len)
  also have "\<dots> = (\<Sum>k<length f. f ! k * (\<Sum>i<?n. x ! i * mass1 ! i * pols ! i ! k)\<^sup>2)"
    by (rule quadratic_form_of_outer_products)
  also have "0 \<le> \<dots>"
    using nn by (intro sum_nonneg mult_nonneg_nonneg) auto
  finally show "0 \<le> einsum_i_ij_j x (times_masses mass1 (einsum_i_ji_ki f pols pols)) x" .
qed

text \<open>
  Claim C5. For a well-formed set at Gamma (\<open>nqirr = 1\<close>) whose diagonalisation at index 0
  returns an eigenvector matrix with one row per cartesian degree of freedom and positive
  frequencies only, \<^verbatim>\<open>GetUpsilonMatrix(0)\<close> returns a \<open>3 N_atoms\<close> by \<open>3 N_atoms\<close> matrix that is
  symmetric and positive semidefinite.
\<close>

theorem GetUpsilonMatrix_symmetric_psd:
  assumes wf: "well_formed self" and s: "structure self = Some s"
    and gamma: "nqirr self = 1"
    and dyag: "DyagDinQ ext self 0 = Inr (w, pols)"
    and rows: "length pols = nat (3 * N_atoms s)"
    and pos: "\<forall>f\<in>set w. 0 < f"
  shows "\<exists>U. GetUpsilonMatrix ext self 0 = Inr U
            \<and> is_shape (nat (3 * N_atoms s)) (nat (3 * N_atoms s)) U
            \<and> symmetric_matrix U \<and> positive_semidefinite U"
proof -
  from wf s have N0: "0 \<le> N_atoms s" and la: "length (atoms s) = nat (N_atoms s)"
    and ms: "list_all (\<lambda>a. masses s a \<noteq> None) (atoms s)"
    by (simp_all add: well_formed_def)
  define mass1 where "mass1 = triple (map sqrt (map (\<lambda>a. the (masses s a)) (atoms s)))"
  define factor where
    "factor = map2 (\<lambda>x n. 2 * x / (1 + 2 * n)) (drop 3 w) (map (\<lambda>_. 0::real) (drop 3 w))"
  define P where "P = map (drop 3) (map (map Re) pols)"
  have am: "atom_masses s (nat (N_atoms s)) = Inr (map (\<lambda>a. the (masses s a)) (atoms s))"
    using atom_masses_ok[of "nat (N_atoms s)" s] la ms by simp
  have lm: "length mass1 = nat (3 * N_atoms s)"
    using la N0 by (simp add: mass1_def length_triple nat_mult_distrib)
  have lP: "length P = length mass1" by (simp add: P_def rows lm)
  have eq: "GetUpsilonMatrix ext self 0 = Inr (times_masses mass1 (einsum_i_ji_ki factor P P))"
    using s gamma dyag am N0 rows
    by (simp add: GetUpsilonMatrix_def ebind_def the_structure_def dim3N_def Let_def
          mass1_def factor_def P_def einsum_i_ji_ki_def)
  have "factor = map (\<lambda>x. 2 * x) (drop 3 w)"
    by (simp add: factor_def zip_map2 zip_same_conv_map)
  then have fnn: "\<forall>x\<in>set factor. 0 \<le> x"
    using pos by (auto dest!: in_set_dropD intro: less_imp_le)
  have sh: "is_shape (nat (3 * N_atoms s)) (nat (3 * N_atoms s))
              (times_masses mass1 (einsum_i_ji_ki factor P P))"
    by (simp add: is_shape_def times_masses_def lm list_all_iff)
  show ?thesis
    using eq sh symmetric_times_masses[OF lP] psd_times_masses[OF lP fnn] by blast
qed

theorem GetUpsilonMatrix_symmetric_psd_witness:
  "well_formed (gamma_set 2 (diag_matrix [1, 1, 1, 4, 4, 9])) \<and>
   DyagDinQ std_externals (gamma_set 2 (diag_matrix [1, 1, 1, 4, 4, 9])) 0
     = Inr ([1, 1, 1, 2, 2, 3], diag_matrix [1, 1, 1, 1, 1, 1]) \<and>
   list_all (\<lambda>f. 0 < f) [1, 1, 1, 2, 2, 3 :: real] \<and>
   (\<exists>U. GetUpsilonMatrix std_externals (gamma_set 2 (diag_matrix [1, 1, 1, 4, 4, 9])) 0 = Inr U
        \<and> is_shape (nat (3 * N_atoms (hydrogen 2))) (nat (3 * N_atoms (hydrogen 2))) U
        \<and> symmetric_matrix U \<and> positive_semidefinite U)"
proof -
  let ?self = "gamma_set 2 (diag_matrix [1, 1, 1, 4, 4, 9])"
  have 1: "structure ?self = Some (hydrogen 2)" by (simp add: gamma_set_def)
  have 2: "well_formed ?self"
    by (simp add: well_formed_def is_shape_def sample_defs)
  have 3: "nqirr ?self = 1" by (simp add: gamma_set_def Phonons_default_def)
  have 5: "length (diag_matrix [1, 1, 1, 1, 1, 1 :: complex]) = nat (3 * N_atoms (hydrogen 2))"
    by (simp add: diag_matrix_def hydrogen_def)
  have 6: "\<forall>f\<in>set [1, 1, 1, 2, 2, 3 :: real]. 0 < f" by simp
  show ?thesis
    using GetUpsilonMatrix_symmetric_psd [OF 2 1 3 DyagDinQ_sample_2 5 6] 2 DyagDinQ_sample_2
    by simp
qed

subsection \<open>GetProbability\<close>

lemma einsum_i_ij_j_zero: "einsum_i_ij_j (replicate n 0) m (replicate n 0) = 0"
  by (simp add: einsum_i_ij_j_def sum_list_upt)

lemma prod_list_nonneg: "\<forall>x\<in>set xs. (0::real) \<le> x \<Longrightarrow> 0 \<le> prod_list xs"
  by (induction xs) auto

lemma GetProbability_given_upsilon:
  assumes "structure self = Some s" "0 \<le> N_atoms s" "is_shape (length u) (length u) ups"
  shows "GetProbability ext self (Flat u) T (Some ups) nf
       = Inr (if nf then norm_factor ext ups * exp (- einsum_i_ij_j u ups u)
              else exp (- einsum_i_ij_j u ups u))"
  using assms
  by (simp add: GetProbability_def ebind_def the_structure_def dim3N_def Let_def norm_factor_def)

lemma norm_factor_nonneg:
  assumes "\<forall>v\<in>set (np_linalg_eigvals ext ups). 0 \<le> v"
  shows "0 \<le> norm_factor ext ups"
proof -
  let ?v = "np_linalg_eigvals ext ups"
  have "\<forall>i\<in>set (argsort (map abs ?v)). i < length ?v"
    by (simp add: argsort_props)
  then have "\<forall>x\<in>set (map (\<lambda>i. ?v ! i) (argsort (map abs ?v))). 0 \<le> x"
    using assms by auto
  then have "\<forall>x\<in>set (drop 3 (map (\<lambda>v. v / (2 * pi))
                                   (map (\<lambda>i. ?v ! i) (argsort (map abs ?v))))). 0 \<le> x"
    by (auto dest!: in_set_dropD)
  then show ?thesis
    unfolding norm_factor_def Let_def by (intro real_sqrt_ge_zero prod_list_nonneg)
qed

lemma psd_diag_3: "positive_semidefinite (diag_matrix [1, 1, 1])"
proof -
  have "0 \<le> einsum_i_ij_j x (diag_matrix [1, 1, 1]) x" if "length x = 3" for x :: "real list"
  proof -
    from that obtain a b c where "x = [a, b, c]"
      by (auto simp: numeral_3_eq_3 length_Suc_conv)
    then show ?thesis
      by (simp add: einsum_i_ij_j_def diag_matrix_def upt_3)
  qed
  then show ?thesis by (simp add: positive_semidefinite_def diag_matrix_def)
qed

lemma psd_diag_6: "positive_semidefinite (diag_matrix [1, 0, 0, 0, 0, 0])"
proof -
  have "0 \<le> einsum_i_ij_j x (diag_matrix [1, 0, 0, 0, 0, 0]) x"
    if "length x = 6" for x :: "real list"
  proof -
    from that obtain a b c d e f where "x = [a, b, c, d, e, f]"
      by (auto simp: eval_nat_numeral length_Suc_conv)
    then show ?thesis
      by (simp add: einsum_i_ij_j_def diag_matrix_def upt_6)
  qed
  then show ?thesis by (simp add: positive_semidefinite_def diag_matrix_def)
qed

text \<open>
  Claim C6, as stated, fails: for the positive-semidefinite matrix \<open>diag(1, 0, 0, 0, 0, 0)\<close>
  of a two-atom set the normalised density is 0 at every displacement, because the product
  of the three eigenvalues largest in magnitude is 0. The displacement \<open>(1, 0, 0, 0, 0, 0)\<close>
  has a larger quadratic form than the zero displacement and the same density.
\<close>

theorem GetProbability_strict_counterexample:
  "positive_semidefinite (diag_matrix [1, 0, 0, 0, 0, 0]) \<and>
   einsum_i_ij_j (replicate 6 0) (diag_matrix [1, 0, 0, 0, 0, 0]) (replicate 6 0)
     < einsum_i_ij_j [1, 0, 0, 0, 0, 0] (diag_matrix [1, 0, 0, 0, 0, 0]) [1, 0, 0, 0, 0, 0] \<and>
   GetProbability std_externals (gamma_set 2 (diag_matrix [1, 1, 1, 4, 4, 9]))
     (Flat (replicate 6 0)) 0 (Some (diag_matrix [1, 0, 0, 0, 0, 0])) True = Inr 0 \<and>
   GetProbability std_externals (gamma_set 2 (diag_matrix [1, 1, 1, 4, 4, 9]))
     (Flat [1, 0, 0, 0, 0, 0]) 0 (Some (diag_matrix [1, 0, 0, 0, 0, 0])) True = Inr 0"
proof -
  have nf: "norm_factor std_externals (diag_matrix [1, 0, 0, 0, 0, 0]) = 0"
    by (simp add: norm_factor_def sample_defs argsort_def)
  have s: "structure (gamma_set 2 (diag_matrix [1, 1, 1, 4, 4, 9])) = Some (hydrogen 2)"
    by (simp add: gamma_set_def)
  have N: "0 \<le> N_atoms (hydrogen 2)" by (simp add: hydrogen_def)
  have sh0: "is_shape (length (replicate 6 (0::real))) (length (replicate 6 (0::real)))
               (diag_matrix [1, 0, 0, 0, 0, 0 :: real])"
    by (simp add: is_shape_def sample_defs)
  have sh1: "is_shape (length [1, 0, 0, 0, 0, 0 :: real]) (length [1, 0, 0, 0, 0, 0 :: real])
               (diag_matrix [1, 0, 0, 0, 0, 0 :: real])"
    by (simp add: is_shape_def sample_defs)
  have q: "einsum_i_ij_j [1, 0, 0, 0, 0, 0] (diag_matrix [1, 0, 0, 0, 0, 0]) [1, 0, 0, 0, 0, 0] = 1"
    by (simp add: einsum_i_ij_j_def sample_defs)
  have p0: "GetProbability std_externals (gamma_set 2 (diag_matrix [1, 1, 1, 4, 4, 9]))
     (Flat (replicate 6 0)) 0 (Some (diag_matrix [1, 0, 0, 0, 0, 0])) True = Inr 0"
    unfolding GetProbability_given_upsilon [OF s N sh0] using nf by simp
  have p1: "GetProbability std_externals (gamma_set 2 (diag_matrix [1, 1, 1, 4, 4, 9]))
     (Flat [1, 0, 0, 0, 0, 0]) 0 (Some (diag_matrix [1, 0, 0, 0, 0, 0])) True = Inr 0"
    unfolding GetProbability_given_upsilon [OF s N sh1] using nf by simp
  show ?thesis
    using psd_diag_6 p0 p1 q by (simp add: einsum_i_ij_j_zero)
qed

text \<open>
  Claim C6, amended. For a positive-semidefinite square matrix \<open>ups\<close> passed to
  \<^verbatim>\<open>GetProbability\<close>, whose eigenvalues as returned by \<^verbatim>\<open>np.linalg.eigvals\<close> are not negative,
  and for displacements of its dimension: the density at the zero displacement is at least
  the density at any displacement; and when the quadratic form of \<open>u1\<close> is smaller than that
  of \<open>u2\<close>, the density at \<open>u1\<close> is at least the density at \<open>u2\<close>, and strictly greater when the
  density is not normalised or the density at the zero displacement is positive.
\<close>

theorem GetProbability_monotone:
  assumes s: "structure self = Some s" and N0: "0 \<le> N_atoms s"
    and sh: "is_shape n n ups" and l1: "length u1 = n" and l2: "length u2 = n"
    and psd: "positive_semidefinite ups"
    and ev: "\<forall>v\<in>set (np_linalg_eigvals ext ups). 0 \<le> v"
  shows "\<exists>p0 p1 p2.
           GetProbability ext self (Flat (replicate n 0)) T (Some ups) nf = Inr p0
         \<and> GetProbability ext self (Flat u1) T (Some ups) nf = Inr p1
         \<and> GetProbability ext self (Flat u2) T (Some ups) nf = Inr p2
         \<and> p1 \<le> p0
         \<and> (einsum_i_ij_j u1 ups u1 < einsum_i_ij_j u2 ups u2 \<longrightarrow>
              p2 \<le> p1 \<and> ((\<not> nf \<or> 0 < p0) \<longrightarrow> p2 < p1))"
proof -
  let ?c = "norm_factor ext ups"
  let ?q1 = "einsum_i_ij_j u1 ups u1" and ?q2 = "einsum_i_ij_j u2 ups u2"
  have c0: "0 \<le> ?c" by (rule norm_factor_nonneg[OF ev])
  have ln: "length ups = n" using sh by (simp add: is_shape_def)
  have q1: "0 \<le> ?q1"
    using psd l1 ln by (simp add: positive_semidefinite_def)
  have e0: "GetProbability ext self (Flat (replicate n 0)) T (Some ups) nf
              = Inr (if nf then ?c else 1)"
    using GetProbability_given_upsilon[OF s N0, of "replicate n 0" ups ext T nf] sh
    by (simp add: einsum_i_ij_j_zero)
  have e1: "GetProbability ext self (Flat u1) T (Some ups) nf
              = Inr (if nf then ?c * exp (- ?q1) else exp (- ?q1))"
    using GetProbability_given_upsilon[OF s N0, of u1 ups ext T nf] sh l1 by simp
  have e2: "GetProbability ext self (Flat u2) T (Some ups) nf
              = Inr (if nf then ?c * exp (- ?q2) else exp (- ?q2))"
    using GetProbability_given_upsilon[OF s N0, of u2 ups ext T nf] sh l2 by simp
  have le1: "exp (- ?q1) \<le> 1" using q1 by simp
  have a: "(if nf then ?c * exp (- ?q1) else exp (- ?q1)) \<le> (if nf then ?c else 1)"
    using le1 c0 by (simp add: mult_left_le)
  have b: "?q1 < ?q2 \<Longrightarrow>
           (if nf then ?c * exp (- ?q2) else exp (- ?q2))
            \<le> (if nf then ?c * exp (- ?q1) else exp (- ?q1))"
    using c0 by (simp add: mult_left_mono)
  have c: "?q1 < ?q2 \<Longrightarrow> \<not> nf \<or> 0 < (if nf then ?c else 1) \<Longrightarrow>
           (if nf then ?c * exp (- ?q2) else exp (- ?q2))
            < (if nf then ?c * exp (- ?q1) else exp (- ?q1))"
    by (cases nf) simp_all
  show ?thesis
    unfolding e0 e1 e2 using a b c by blast
qed

theorem GetProbability_monotone_witness:
  "positive_semidefinite (diag_matrix [1, 1, 1]) \<and>
   list_all (\<lambda>v. 0 \<le> v) (np_linalg_eigvals std_externals (diag_matrix [1, 1, 1])) \<and>
   einsum_i_ij_j [0, 0, 0] (diag_matrix [1, 1, 1]) [0, 0, 0]
     < einsum_i_ij_j [1, 0, 0] (diag_matrix [1, 1, 1]) [1, 0, 0] \<and>
   (\<exists>p0 p1 p2.
      GetProbability std_externals (gamma_set 1 (diag_matrix [4, 1, - 9]))
        (Flat (replicate 3 0)) 0 (Some (diag_matrix [1, 1, 1])) False = Inr p0
    \<and> GetProbability std_externals (gamma_set 1 (diag_matrix [4, 1, - 9]))
        (Flat [0, 0, 0]) 0 (Some (diag_matrix [1, 1, 1])) False = Inr p1
    \<and> GetProbability std_externals (gamma_set 1 (diag_matrix [4, 1, - 9]))
        (Flat [1, 0, 0]) 0 (Some (diag_matrix [1, 1, 1])) False = Inr p2
    \<and> p1 \<le> p0 \<and> p2 \<le> p1 \<and> p2 < p1)"
proof -
  have 1: "structure (gamma_set 1 (diag_matrix [4, 1, - 9])) = Some (hydrogen 1)"
    by (simp add: gamma_set_def)
  have 2: "0 \<le> N_atoms (hydrogen 1)" by (simp add: hydrogen_def)
  have 3: "is_shape 3 3 (diag_matrix [1, 1, 1 :: real])" by (simp add: is_shape_def sample_defs)
  have 4: "length [0, 0, 0 :: real] = 3" "length [1, 0, 0 :: real] = 3" by simp_all
  have 5: "\<forall>v\<in>set (np_linalg_eigvals std_externals (diag_matrix [1, 1, 1])). 0 \<le> v"
    by (simp add: sample_defs)
  have 6: "einsum_i_ij_j [0, 0, 0] (diag_matrix [1, 1, 1]) [0, 0, 0]
     < einsum_i_ij_j [1, 0, 0] (diag_matrix [1, 1, 1]) [1, 0, 0]"
    by (simp add: einsum_i_ij_j_def sample_defs)
  show ?thesis
    using GetProbability_monotone [OF 1 2 3 4 psd_diag_3 5, of 0 False] psd_diag_3 5 6
    by (simp add: list_all_iff)
qed

subsection \<open>Guards on the temperature and on supercells\<close>



subsection \<open>GetRamanResponce without a Raman tensor\<close>



subsection \<open>CheckCompatibility\<close>

text \<open>
  Claim C10, as stated, fails: the method raises when a structure is absent. The object
  \<^verbatim>\<open>Phonons()\<close> has no structure, and comparing it with another \<^verbatim>\<open>Phonons()\<close> raises
  \<^verbatim>\<open>AttributeError\<close> at \<^verbatim>\<open>self.structure.N_atoms\<close>.
\<close>

theorem CheckCompatibility_raises_counterexample:
  "CheckCompatibility Phonons_default (PhononsObj Phonons_default)
     = Inl (AttributeError ''N_atoms'')"
  by (simp add: CheckCompatibility_def the_structure_def ebind_def Phonons_default_def)

text \<open>
  Claim C10, amended. \<^verbatim>\<open>CheckCompatibility(other)\<close> returns \<^verbatim>\<open>False\<close> when the type of \<open>other\<close>
  differs from the type of the receiver. When \<open>other\<close> is an instance of the class and both
  objects have a structure, it returns \<^verbatim>\<open>True\<close> exactly when the atom counts are equal and the
  irreducible-q counts are equal (species are not compared). When \<open>other\<close> is an instance of
  the class and one of the two has no structure, it raises \<^verbatim>\<open>AttributeError\<close>. The result
  is a value only: the method assigns to no attribute of either object.
\<close>

theorem CheckCompatibility_result:
  "CheckCompatibility self OtherTyped = Inr False \<and>
   (structure self = Some s \<longrightarrow> structure other = Some t \<longrightarrow>
      CheckCompatibility self (PhononsObj other)
        = Inr (N_atoms s = N_atoms t \<and> nqirr self = nqirr other)) \<and>
   (structure self = None \<or> structure other = None \<longrightarrow>
      CheckCompatibility self (PhononsObj other) = Inl (AttributeError ''N_atoms''))"
  by (auto simp: CheckCompatibility_def the_structure_def ebind_def split: option.splits)

theorem CheckCompatibility_result_witness:
  "CheckCompatibility (gamma_set 1 (diag_matrix [4, 1, - 9])) OtherTyped = Inr False \<and>
   CheckCompatibility (gamma_set 1 (diag_matrix [4, 1, - 9]))
     (PhononsObj (gamma_set 1 (diag_matrix [1, 1, 1]))) = Inr True \<and>
   CheckCompatibility (gamma_set 1 (diag_matrix [4, 1, - 9]))
     (PhononsObj (gamma_set 2 (diag_matrix [1, 1, 1, 4, 4, 9]))) = Inr False \<and>
   CheckCompatibility (gamma_set 1 (diag_matrix [4, 1, - 9])) (PhononsObj Phonons_default)
     = Inl (AttributeError ''N_atoms'')"
  using CheckCompatibility_result
          [of "gamma_set 1 (diag_matrix [4, 1, - 9])" "hydrogen 1"
              "gamma_set 1 (diag_matrix [1, 1, 1])" "hydrogen 1"]
        CheckCompatibility_result
          [of "gamma_set 1 (diag_matrix [4, 1, - 9])" "hydrogen 1"
              "gamma_set 2 (diag_matrix [1, 1, 1, 4, 4, 9])" "hydrogen 2"]
        CheckCompatibility_result
          [of "gamma_set 1 (diag_matrix [4, 1, - 9])" "hydrogen 1" Phonons_default "hydrogen 1"]
  by (simp add: gamma_set_def hydrogen_def Phonons_default_def)

subsection \<open>The constructor with a structure\<close>

lemma Phonons_init_structure_raises:
  "0 < N_atoms s \<Longrightarrow> 0 < n \<Longrightarrow>
   Phonons_init ext fs (StructureArg s) n full_name = Inl (TypeError ''int object is not iterable'')"
  by (simp add: Phonons_init_def iterate_int_def ebind_def)

text \<open>
  Claim C4 does not hold of the code: the loop that should append the \<open>nqirr\<close> zero matrices
  is written \<^verbatim>\<open>for i in nqirr\<close>, and iterating over an integer raises \<^verbatim>\<open>TypeError\<close>. The
  constructor called with a one-atom structure and \<open>nqirr = 1\<close> raises instead of returning
  a set.
\<close>

theorem Phonons_init_structure_TypeError:
  "Phonons_init std_externals sample_fs (StructureArg (hydrogen 1)) 1 False
     = Inl (TypeError ''int object is not iterable'')"
  by (simp add: Phonons_init_def iterate_int_def ebind_def hydrogen_def)

subsection \<open>The loader: arguments and missing files\<close>

lemma load_files_append:
  "load_files ext fs pre full_name (xs @ ys) self
     = ebind (load_files ext fs pre full_name xs self) (load_files ext fs pre full_name ys)"
proof (induction xs arbitrary: self)
  case Nil
  then show ?case by (simp add: ebind_def)
next
  case (Cons x xs)
  then show ?case
    by (simp add: ebind_def Let_def split: option.splits sum.splits)
qed

lemma file_path_dyn2: "file_path ''dyn'' False (Suc 0) = ''dyn2''"
  by (simp add: file_path_def py_str_int_def str_nat.simps digit_char_def)

text \<open>
  Claim C3, as stated, fails: the files are tested for existence one at a time, each just
  before it is read. With two files expected, the first one present and empty and the second
  one missing, the loader raises \<^verbatim>\<open>IndexError\<close> while it reads the first file.
\<close>

theorem LoadFromQE_missing_file_counterexample:
  "empty_file_fs (file_path ''dyn'' False 1) = None \<and>
   LoadFromQE std_externals empty_file_fs Phonons_default ''dyn'' 2 False = Inl IndexError"
  by (simp add: file_path_dyn2 empty_file_fs_def LoadFromQE_def upt_rec file_path_def
        py_str_int_def str_nat.simps digit_char_def load_file_def load_structure_def
        py_nth_def ebind_def)

text \<open>
  Claim C3, amended. The loader raises its \<^verbatim>\<open>ValueError\<close> on \<open>nqirr\<close> when the count is not
  positive, and its \<^verbatim>\<open>ValueError\<close> on \<^verbatim>\<open>full_name\<close> when full-name mode comes with a count above
  one. With valid arguments, when file number \<open>k\<close> (counting from 0) does not exist and the
  files before it load without error, it raises the \<^verbatim>\<open>ValueError\<close> that names the missing file.
\<close>

theorem LoadFromQE_errors:
  "(nqirr' \<le> 0 \<longrightarrow>
      LoadFromQE ext fs self pre nqirr' full_name
        = Inl (ValueError ''Error, the specified nqirr is not valid: it must be positive!'')) \<and>
   (full_name \<and> 1 < nqirr' \<longrightarrow>
      LoadFromQE ext fs self pre nqirr' full_name
        = Inl (ValueError ''Error, with full_name only gamma matrices are loaded.'')) \<and>
   (0 < nqirr' \<and> \<not> (full_name \<and> 1 < nqirr') \<and> k < nat nqirr' \<and>
    fs (file_path pre full_name k) = None \<and>
    load_files ext fs pre full_name [0..<k] (self \<lparr> structure := Some Structure_init \<rparr>) = Inr self'
    \<longrightarrow>
      LoadFromQE ext fs self pre nqirr' full_name
        = Inl (ValueError (''Error, file '' @ file_path pre full_name k @ '' does not exist.'')))"
proof (intro conjI impI)
  assume "nqirr' \<le> 0"
  then show "LoadFromQE ext fs self pre nqirr' full_name
        = Inl (ValueError ''Error, the specified nqirr is not valid: it must be positive!'')"
    by (simp add: LoadFromQE_def)
next
  assume "full_name \<and> 1 < nqirr'"
  then show "LoadFromQE ext fs self pre nqirr' full_name
        = Inl (ValueError ''Error, with full_name only gamma matrices are loaded.'')"
    by (simp add: LoadFromQE_def)
next
  assume a: "0 < nqirr' \<and> \<not> (full_name \<and> 1 < nqirr') \<and> k < nat nqirr' \<and>
    fs (file_path pre full_name k) = None \<and>
    load_files ext fs pre full_name [0..<k] (self \<lparr> structure := Some Structure_init \<rparr>) = Inr self'"
  then have "[0..<nat nqirr'] = [0..<k] @ k # [Suc k..<nat nqirr']"
    by (metis le_add1 less_imp_add_positive upt_add_eq_append upt_conv_Cons plus_nat.add_0)
  then have "load_files ext fs pre full_name [0..<nat nqirr'] (self \<lparr> structure := Some Structure_init \<rparr>)
      = Inl (ValueError (''Error, file '' @ file_path pre full_name k @ '' does not exist.''))"
    using a by (simp add: load_files_append ebind_def)
  with a show "LoadFromQE ext fs self pre nqirr' full_name
        = Inl (ValueError (''Error, file '' @ file_path pre full_name k @ '' does not exist.''))"
    by (auto simp: LoadFromQE_def ebind_def)
qed

lemma sample_file_loads:
  "\<not> isl (load_files std_externals sample_fs ''dyn'' False [0..<1]
            (Phonons_default \<lparr> structure := Some Structure_init \<rparr>))"
  by code_simp

theorem LoadFromQE_errors_witness:
  "LoadFromQE std_externals sample_fs Phonons_default ''dyn'' 0 False
     = Inl (ValueError ''Error, the specified nqirr is not valid: it must be positive!'') \<and>
   LoadFromQE std_externals sample_fs Phonons_default ''dyn1'' 2 True
     = Inl (ValueError ''Error, with full_name only gamma matrices are loaded.'') \<and>
   sample_fs (file_path ''dyn'' False 1) = None \<and>
   \<not> isl (load_files std_externals sample_fs ''dyn'' False [0..<1]
            (Phonons_default \<lparr> structure := Some Structure_init \<rparr>)) \<and>
   LoadFromQE std_externals sample_fs Phonons_default ''dyn'' 2 False
     = Inl (ValueError ''Error, file dyn2 does not exist.'')"
proof -
  let ?r = "load_files std_externals sample_fs ''dyn'' False [0..<1]
              (Phonons_default \<lparr> structure := Some Structure_init \<rparr>)"
  have ok: "?r = Inr (projr ?r)"
    using sample_file_loads by simp
  have missing: "sample_fs (file_path ''dyn'' False 1) = None"
    by (simp add: file_path_dyn2 sample_fs_def)
  show ?thesis
    using LoadFromQE_errors [of 0 std_externals sample_fs Phonons_default "''dyn''" False]
          LoadFromQE_errors [of 2 std_externals sample_fs Phonons_default "''dyn1''" True]
          LoadFromQE_errors [of 2 std_externals sample_fs Phonons_default "''dyn''" False 1 "projr ?r"]
          ok missing sample_file_loads
    by (simp add: file_path_dyn2)
qed

subsection \<open>ForcePositiveDefinite on a Hermitian matrix\<close>

lemma sqrt_16: "sqrt 16 = 4"
  by (rule real_sqrt_unique) simp_all

lemma sqrt_25: "sqrt 25 = 5"
  by (rule real_sqrt_unique) simp_all

lemma first_pass_sample_neq: "first_pass_sample \<noteq> hermitian_sample"
  by (simp add: first_pass_sample_def hermitian_sample_def)

lemma hermitian_eig_first_pass:
  "hermitian_eig first_pass_sample =
     ([4, - 4, 25],
      [[Complex (5 / sqrt 34) 0, Complex 0 (- 3 / sqrt 34), 0],
       [Complex 0 (3 / sqrt 34), Complex (5 / sqrt 34) 0, 0],
       [0, 0, 1]])"
  by (simp add: hermitian_eig_def first_pass_sample_neq)

lemma hermitian_sample_is_hermitian:
  "list_all (\<lambda>r. list_all (\<lambda>c. hermitian_sample ! r ! c = cnj (hermitian_sample ! c ! r))
                     [0, 1, 2]) [0, 1, 2]"
  by (simp add: hermitian_sample_def complex_eq_iff)

lemma hermitian_eig_valid:
  "eigen_decomposition hermitian_sample (hermitian_eig hermitian_sample)"
  by (simp add: eigen_decomposition_def hermitian_eig_def hermitian_sample_def upt_3
        complex_eq_iff cmod_def power2_eq_square field_simps)

lemma hermitian_eig_first_pass_valid:
  "eigen_decomposition first_pass_sample (hermitian_eig first_pass_sample)"
  unfolding hermitian_eig_first_pass
  by (simp add: eigen_decomposition_def first_pass_sample_def upt_3
        complex_eq_iff cmod_def power2_eq_square field_simps)

lemma mass_weighting_unit_mass:
  assumes "is_shape 3 3 m"
  shows "mult_elem (inv_sqrt_masses (hydrogen 1) 3) m = m"
proof -
  from assms obtain a b c d e f g h i where "m = [[a, b, c], [d, e, f], [g, h, i]]"
    by (auto simp: is_shape_def numeral_3_eq_3 length_Suc_conv)
  then show ?thesis
    by (simp add: mult_elem_def inv_sqrt_masses_def hydrogen_def upt_3)
qed

lemma DyagDinQ_gamma_set_1:
  assumes sh: "is_shape 3 3 m" and eig: "np_linalg_eig ext m = (vals, vects)"
    and rows: "list_all (\<lambda>row. length vals \<le> length row) vects"
  shows "DyagDinQ ext (gamma_set 1 m) 0
       = Inr (map (\<lambda>i. map freq_of (map Re vals) ! i) (argsort (map freq_of (map Re vals))),
              take_cols (argsort (map freq_of (map Re vals))) vects)"
proof -
  have 1: "the_structure (gamma_set 1 m) ''N_atoms'' = Inr (hydrogen 1)"
    by (simp add: the_structure_def gamma_set_def)
  have 2: "dim3N (hydrogen 1) = Inr 3" by (simp add: dim3N_def hydrogen_def)
  have 3: "find (\<lambda>a. masses (hydrogen 1) a = None) (atoms (hydrogen 1)) = None"
    by (simp add: hydrogen_def)
  have 4: "py_nth (dynmats (gamma_set 1 m)) 0 = Inr m"
    by (simp add: py_nth_def gamma_set_def)
  have 5: "mult_elem (inv_sqrt_masses (hydrogen 1) 3) m = m"
    by (rule mass_weighting_unit_mass[OF sh])
  show ?thesis
    unfolding DyagDinQ_def 1 ebind_def sum.case 2 3 option.case 4
    using sh eig rows by (simp add: 5 Let_def del: One_nat_def)
qed

lemma DyagDinQ_hermitian_sample:
  "DyagDinQ hermitian_externals (gamma_set 1 hermitian_sample) 0 =
     Inr ([1, 4, 5],
          [[Complex (1 / sqrt 2) 0, Complex (1 / sqrt 2) 0, 0],
           [Complex 0 (- 1 / sqrt 2), Complex 0 (1 / sqrt 2), 0],
           [0, 0, 1]])"
proof -
  have sh: "is_shape 3 3 hermitian_sample" by (simp add: is_shape_def hermitian_sample_def)
  have e: "np_linalg_eig hermitian_externals hermitian_sample =
             ([1, 16, 25],
              [[Complex (1 / sqrt 2) 0, Complex (1 / sqrt 2) 0, 0],
               [Complex 0 (- 1 / sqrt 2), Complex 0 (1 / sqrt 2), 0],
               [0, 0, 1]])"
    by (simp add: hermitian_externals_def std_externals_def hermitian_eig_def)
  have r: "list_all (\<lambda>row. length [1, 16, 25 :: complex] \<le> length row)
             [[Complex (1 / sqrt 2) 0, Complex (1 / sqrt 2) 0, 0],
              [Complex 0 (- 1 / sqrt 2), Complex 0 (1 / sqrt 2), 0],
              [0, 0, 1]]" by simp
  show ?thesis
    unfolding DyagDinQ_gamma_set_1[OF sh e r]
    by (simp add: freq_of_def sqrt_16 sqrt_25 argsort_def take_cols_def)
qed

lemma DyagDinQ_first_pass_sample:
  "DyagDinQ hermitian_externals (gamma_set 1 first_pass_sample) 0 =
     Inr ([- 2, 2, 5],
          [[Complex 0 (- 3 / sqrt 34), Complex (5 / sqrt 34) 0, 0],
           [Complex (5 / sqrt 34) 0, Complex 0 (3 / sqrt 34), 0],
           [0, 0, 1]])"
proof -
  have sh: "is_shape 3 3 first_pass_sample" by (simp add: is_shape_def first_pass_sample_def)
  have e: "np_linalg_eig hermitian_externals first_pass_sample =
             ([4, - 4, 25],
              [[Complex (5 / sqrt 34) 0, Complex 0 (- 3 / sqrt 34), 0],
               [Complex 0 (3 / sqrt 34), Complex (5 / sqrt 34) 0, 0],
               [0, 0, 1]])"
    by (simp add: hermitian_externals_def std_externals_def hermitian_eig_first_pass)
  have r: "list_all (\<lambda>row. length [4, - 4, 25 :: complex] \<le> length row)
             [[Complex (5 / sqrt 34) 0, Complex 0 (- 3 / sqrt 34), 0],
              [Complex 0 (3 / sqrt 34), Complex (5 / sqrt 34) 0, 0],
              [0, 0, 1]]" by simp
  show ?thesis
    unfolding DyagDinQ_gamma_set_1[OF sh e r]
    by (simp add: freq_of_def sqrt_4 sqrt_25 argsort_def take_cols_def)
qed

lemma ForcePositiveDefinite_gamma_set_1:
  assumes d: "DyagDinQ ext (gamma_set 1 m) 0 = Inr (w, pols)" and l: "length pols = 3"
  shows "ForcePositiveDefinite ext (gamma_set 1 m)
       = Inr (gamma_set 1 (rebuild_matrix [1, 1, 1] w pols))"
proof -
  have 1: "the_structure (gamma_set 1 m) ''N_atoms'' = Inr (hydrogen 1)"
    by (simp add: the_structure_def gamma_set_def)
  have 2: "dim3N (hydrogen 1) = Inr 3" by (simp add: dim3N_def hydrogen_def)
  have 3: "atom_masses (hydrogen 1) (nat (N_atoms (hydrogen 1))) = Inr [1]"
    by (simp add: hydrogen_def ebind_def py_nth_def lookup_mass_def)
  have 4: "triple [1 :: real] = [1, 1, 1]" by (simp add: triple_def)
  have 5: "[0..<length (dynmats (gamma_set 1 m))] = [0]" by (simp add: gamma_set_def)
  have 6: "gamma_set 1 m \<lparr> dynmats := (dynmats (gamma_set 1 m))[0 := x] \<rparr> = gamma_set 1 x" for x
    by (simp add: gamma_set_def)
  show ?thesis
    unfolding ForcePositiveDefinite_def 1 ebind_def sum.case 2 3 4 5
    using d l by (simp add: ebind_def 6 del: One_nat_def)
qed

lemma rebuild_first_pass:
  "rebuild_matrix [1, 1, 1] [1, 4, 5]
     [[Complex (1 / sqrt 2) 0, Complex (1 / sqrt 2) 0, 0],
      [Complex 0 (- 1 / sqrt 2), Complex 0 (1 / sqrt 2), 0],
      [0, 0, 1]] = first_pass_sample"
  by (simp add: rebuild_matrix_def einsum_i_ji_ki_def upt_3 first_pass_sample_def
        complex_eq_iff Let_def field_simps)

lemma rebuild_second_pass:
  "rebuild_matrix [1, 1, 1] [- 2, 2, 5]
     [[Complex 0 (- 3 / sqrt 34), Complex (5 / sqrt 34) 0, 0],
      [Complex (5 / sqrt 34) 0, Complex 0 (3 / sqrt 34), 0],
      [0, 0, 1]] = second_pass_sample"
  by (simp add: rebuild_matrix_def einsum_i_ji_ki_def upt_3 second_pass_sample_def
        complex_eq_iff Let_def field_simps)

text \<open>
  Claim C7 does not hold of the code. The reconstruction sums \<open>\<omega>\<^sup>2 e\<^sub>a e\<^sub>b\<close> without conjugating
  the second eigenvector. For the Hermitian matrix \<open>hermitian_sample\<close> (eigenvalues 1, 16, 25,
  eigenvectors with complex components) the first application stores \<open>first_pass_sample\<close>,
  which is not Hermitian and has the eigenvalue \<open>- 4\<close>; the second application replaces it by
  \<open>second_pass_sample\<close>.
\<close>

theorem ForcePositiveDefinite_twice_differs:
  "ForcePositiveDefinite hermitian_externals (gamma_set 1 hermitian_sample)
     = Inr (gamma_set 1 first_pass_sample) \<and>
   ForcePositiveDefinite hermitian_externals (gamma_set 1 first_pass_sample)
     = Inr (gamma_set 1 second_pass_sample) \<and>
   dynmats (gamma_set 1 second_pass_sample) \<noteq> dynmats (gamma_set 1 first_pass_sample)"
proof -
  have l0: "length [[Complex (1 / sqrt 2) 0, Complex (1 / sqrt 2) 0, 0],
                    [Complex 0 (- 1 / sqrt 2), Complex 0 (1 / sqrt 2), 0],
                    [0, 0, 1 :: complex]] = 3" by simp
  have l1: "length [[Complex 0 (- 3 / sqrt 34), Complex (5 / sqrt 34) 0, 0],
                    [Complex (5 / sqrt 34) 0, Complex 0 (3 / sqrt 34), 0],
                    [0, 0, 1 :: complex]] = 3" by simp
  have 1: "ForcePositiveDefinite hermitian_externals (gamma_set 1 hermitian_sample)
             = Inr (gamma_set 1 first_pass_sample)"
    unfolding ForcePositiveDefinite_gamma_set_1 [OF DyagDinQ_hermitian_sample l0]
    by (simp only: rebuild_first_pass)
  have 2: "ForcePositiveDefinite hermitian_externals (gamma_set 1 first_pass_sample)
             = Inr (gamma_set 1 second_pass_sample)"
    unfolding ForcePositiveDefinite_gamma_set_1 [OF DyagDinQ_first_pass_sample l1]
    by (simp only: rebuild_second_pass)
  have 3: "dynmats (gamma_set 1 second_pass_sample) \<noteq> dynmats (gamma_set 1 first_pass_sample)"
    by (simp add: gamma_set_def second_pass_sample_def first_pass_sample_def complex_eq_iff)
  show ?thesis using 1 2 3 by blast
qed

subsection \<open>Saving and loading again\<close>

lemma replicate_numeral: "replicate (numeral k) x = x # replicate (pred_numeral k) x"
  by (simp add: numeral_eq_Suc)

lemma str_nat_numeral:
  "str_nat (numeral k) =
     (if numeral k < (10::nat) then [digit_char (numeral k)]
      else str_nat (numeral k div 10) @ [digit_char (numeral k mod 10)])"
  by (rule str_nat.simps)

lemma str_nat_small: "str_nat 0 = ''0''" "str_nat (Suc 0) = ''1''"
  by (simp_all add: str_nat.simps digit_char_def)

lemmas loader_defs =
  Phonons_init_def LoadFromQE_def load_file_def load_structure_def read_unit_cell_def
  read_numbers_def read_qpoint_def float_row_def to_float_def to_int_def assign_row3_def
  py_split_def py_split_on_def py_strip_def is_space_def py_lower_def lower_char_def
  file_path_def py_str_int_def str_nat_numeral str_nat_small digit_char_def py_trunc_def
  dec_float_def dec_int_def dec_nat_def digit_of_def
  the_structure_def dim3N_def ebind_def py_nth_def np_index_def
  init_scan_def no_mode_def set_masses_def Structure_init_def BOHR_TO_ANGSTROM_def
  std_externals_def Phonons_default_def np_zeros2_def
  Let_def upt_conv_Cons replicate_numeral

lemmas writer_defs =
  write_head_def write_modes_def write_cell_row_def write_type_def write_atom_def q_line_def
  dyn_entry_def write_dyn_line_def write_block_def write_matrix_def write_mode_def
  itau_of_def join_def np_nth_def fmt_f_def fmt_d_def rjust_def zfill_def scaled_def round_def
  A_TO_BOHR_def RyToCm_def RyToTHz_def lookup_mass_def py_str_int_def str_nat_numeral
  str_nat_small digit_char_def the_structure_def ebind_def py_nth_def np_index_def Let_def
  upt_conv_Cons replicate_numeral newline_def

lemma sample_file_loaded:
  "Phonons_init std_externals sample_fs (PathArg ''dyn'') 1 False = Inr sample_loaded"
  by (simp add: loader_defs sample_fs_def sample_file_def sample_loaded_def)

lemma DyagDinQ_sample_loaded:
  "DyagDinQ std_externals sample_loaded 0 = Inr ([- 3, 1, 2], [[0, 0, 1], [0, 1, 0], [1, 0, 0]])"
  by (simp add: DyagDinQ_def sample_loaded_def std_externals_def diag_eig_def ebind_def
      the_structure_def dim3N_def py_nth_def upt_3
      is_shape_def inv_sqrt_masses_def mult_elem_def freq_of_def argsort_def take_cols_def
      sqrt_4 sqrt_9 Let_def)

lemma write_head_sample: "write_head sample_loaded 0 0 = Inr (saved_head, 1)"
  by (simp add: writer_defs sample_loaded_def saved_head_def)

lemma write_modes_sample:
  "write_modes [- 3, 1, 2] [[0, 0, 1], [0, 1, 0], [1, 0, 0]] (Suc 0) = Inr saved_modes"
  by (simp add: writer_defs saved_modes_def)

lemma sample_saved:
  "save_qe std_externals sample_loaded ''out'' False sample_fs
     = Inr (sample_fs(''out1'' \<mapsto> saved_file))"
proof -
  have 1: "nqirr sample_loaded = 1"
    "the_structure sample_loaded ''N_atoms'' = Inr (the (structure sample_loaded))"
    "nat (N_atoms (the (structure sample_loaded))) = 1"
    by (simp_all add: sample_loaded_def the_structure_def)
  have 2: "file_path ''out'' False 0 = ''out1''"
    by (simp add: file_path_def py_str_int_def str_nat.simps digit_char_def)
  have "write_file std_externals sample_loaded 0 0 = Inr (saved_file, 1)"
    unfolding write_file_def write_head_sample ebind_def sum.case prod.case
    using DyagDinQ_sample_loaded by (simp add: 1 write_modes_sample saved_file_def)
  then show ?thesis
    by (simp add: save_qe_def 1 2 ebind_def)
qed

lemma saved_file_reloaded:
  "map_sum id round_trip_view
     (Phonons_init std_externals (sample_fs(''out1'' \<mapsto> saved_file)) (PathArg ''out'') 1 False)
   = Inr (round_trip_view sample_reloaded)"
  by code_simp

text \<open>
  Claim C1 does not hold of the code. The loader multiplies the length scale of the file by
  \<open>BOHR_TO_ANGSTROM = 0.52918\<close>, and \<^verbatim>\<open>save_qe\<close> multiplies it by \<open>A_TO_BOHR = 1.889725989\<close>; the
  product is \<open>1.0000052\<close>. A set loaded from \<open>sample_file\<close>, saved, and loaded again has its
  length scale and its unit cell multiplied by that factor: a relative change above
  \<open>10\<^sup>-\<^sup>6\<close>.
\<close>

theorem save_qe_round_trip_rescales:
  "Phonons_init std_externals sample_fs (PathArg ''dyn'') 1 False = Inr sample_loaded \<and>
   save_qe std_externals sample_loaded ''out'' False sample_fs
     = Inr (sample_fs(''out1'' \<mapsto> saved_file)) \<and>
   map_sum id round_trip_view
     (Phonons_init std_externals (sample_fs(''out1'' \<mapsto> saved_file)) (PathArg ''out'') 1 False)
     = Inr (round_trip_view sample_reloaded) \<and>
   1 / 10 ^ 6 * \<bar>unit_cell (the (structure sample_loaded)) ! 0 ! 0\<bar>
     < \<bar>unit_cell (the (structure sample_reloaded)) ! 0 ! 0
         - unit_cell (the (structure sample_loaded)) ! 0 ! 0\<bar>"
proof -
  have "1 / 10 ^ 6 * \<bar>unit_cell (the (structure sample_loaded)) ! 0 ! 0\<bar>
     < \<bar>unit_cell (the (structure sample_reloaded)) ! 0 ! 0
         - unit_cell (the (structure sample_loaded)) ! 0 ! 0\<bar>"
    by (simp add: sample_reloaded_def sample_loaded_def)
  then show ?thesis
    using sample_file_loaded sample_saved saved_file_reloaded by simp
qed

end
